theory Spec2Isabelle
  imports Complex_Main "HOL-Library.Sublist"
begin

section \<open>Text\<close>

text \<open>
  Python text is modelled as \<^typ>\<open>string\<close>, holding the UTF-8 bytes of the text.
  \<open>str.lower()\<close> and \<open>str.upper()\<close> are built-ins of Python that follow the Unicode
  tables, which are not part of the repository: the functions of the model that call
  them take them as the parameters \<open>lower\<close> and \<open>upper\<close>. On ASCII text they are
  \<open>ascii_lower\<close> and \<open>ascii_upper\<close>, which map the letters \<open>A\<close> to \<open>Z\<close> and \<open>a\<close> to \<open>z\<close>
  and keep every other character; the concrete instances, whose texts are ASCII, use
  these two.
\<close>

definition lower_char :: "char \<Rightarrow> char" where
  "lower_char c =
     (let n = (of_char c :: nat) in if 65 \<le> n \<and> n \<le> 90 then char_of (n + 32) else c)"

definition upper_char :: "char \<Rightarrow> char" where
  "upper_char c =
     (let n = (of_char c :: nat) in if 97 \<le> n \<and> n \<le> 122 then char_of (n - 32) else c)"

definition ascii_lower :: "string \<Rightarrow> string" where
  "ascii_lower s = map lower_char s"

definition ascii_upper :: "string \<Rightarrow> string" where
  "ascii_upper s = map upper_char s"

definition is_ascii :: "string \<Rightarrow> bool" where
  "is_ascii s = list_all (\<lambda>c. (of_char c :: nat) < 128) s"

text \<open>
  What is known of \<open>str.lower()\<close> without the Unicode tables: on ASCII text it is
  \<open>ascii_lower\<close>.
\<close>

definition lowers_ascii :: "(string \<Rightarrow> string) \<Rightarrow> bool" where
  "lowers_ascii lower = (\<forall>s. is_ascii s \<longrightarrow> lower s = ascii_lower s)"

text \<open>\<open>needle in haystack\<close> on Python strings: substring containment.\<close>

fun starts_with :: "string \<Rightarrow> string \<Rightarrow> bool" where
  "starts_with [] s = True"
| "starts_with (k # ks) [] = False"
| "starts_with (k # ks) (c # cs) = (k = c \<and> starts_with ks cs)"

fun py_in :: "string \<Rightarrow> string \<Rightarrow> bool" where
  "py_in k [] = (k = [])"
| "py_in k (c # cs) = (starts_with k (c # cs) \<or> py_in k cs)"

section \<open>Query classifier (\<open>OrchestratorAgent._assess_complexity\<close>)\<close>

definition simple_keywords :: "string list" where
  "simple_keywords =
     [''price'', ''current price'', ''stock price'', ''basic info'',
      ''company info'', ''simple'', ''quick'', ''basic'']"

definition complex_keywords :: "string list" where
  "complex_keywords =
     [''analysis'', ''comprehensive'', ''strategic'', ''recommendation'',
      ''investment thesis'', ''risk assessment'', ''portfolio'', ''sector'',
      ''market outlook'', ''comparative'', ''detailed'']"

text \<open>\<open>sum(1 for keyword in keywords if keyword in query_lower)\<close>\<close>

definition keyword_count :: "string list \<Rightarrow> string \<Rightarrow> int" where
  "keyword_count keywords query_lower =
     sum_list (map (\<lambda>keyword. 1) (filter (\<lambda>keyword. py_in keyword query_lower) keywords))"

text \<open>
  \<open>_assess_complexity\<close>, with \<open>query_lower = query.lower()\<close> as its first step; \<open>lower\<close>
  is \<open>str.lower\<close>.
\<close>

definition simple_count :: "(string \<Rightarrow> string) \<Rightarrow> string \<Rightarrow> int" where
  "simple_count lower query = (let query_lower = lower query in keyword_count simple_keywords query_lower)"

definition complex_count :: "(string \<Rightarrow> string) \<Rightarrow> string \<Rightarrow> int" where
  "complex_count lower query = (let query_lower = lower query in keyword_count complex_keywords query_lower)"

definition assess_complexity :: "(string \<Rightarrow> string) \<Rightarrow> string \<Rightarrow> string" where
  "assess_complexity lower query =
     (if complex_count lower query > simple_count lower query then ''complex''
      else if simple_count lower query > 0 \<and> complex_count lower query = 0 then ''simple''
      else ''multi_step'')"

section \<open>Values, exceptions and agents\<close>

text \<open>
  The values stored in the result dictionaries, and the exceptions the model tracks.
  \<open>KeyError\<close>, \<open>IndexError\<close> and \<open>Exception\<close> (any other exception below the class
  \<open>Exception\<close>, with its message) are caught by \<open>except Exception\<close>; \<open>CancelledError\<close>
  (of \<open>asyncio\<close>) and \<open>KeyboardInterrupt\<close> derive from \<open>BaseException\<close> only and are not.
  \<open>str_exn\<close> is Python's \<open>str(e)\<close>; a \<open>KeyError\<close> prints the key in quotes.
\<close>

datatype pyval = PStr string | PBool bool | PList "string list"

type_synonym pydict = "(string \<times> pyval) list"

datatype pyexn =
  KeyError string | IndexError string | Exception string | CancelledError | KeyboardInterrupt

fun is_exception :: "pyexn \<Rightarrow> bool" where
  "is_exception (KeyError k) = True"
| "is_exception (IndexError m) = True"
| "is_exception (Exception m) = True"
| "is_exception CancelledError = False"
| "is_exception KeyboardInterrupt = False"

fun str_exn :: "pyexn \<Rightarrow> string" where
  "str_exn (KeyError k) = [CHR 0x27] @ k @ [CHR 0x27]"
| "str_exn (IndexError m) = m"
| "str_exn (Exception m) = m"
| "str_exn CancelledError = []"
| "str_exn KeyboardInterrupt = []"

text \<open>
  Modelled from the spec: the result of \<open>BaseAgent.run\<close> (\<open>base_agent.py\<close> is not
  among the sources). The spec's AgentInvocationResult has the agent name, the original
  input, the output text and the success flag; the fields are the keys \<open>agent\<close>,
  \<open>input\<close>, \<open>output\<close> and \<open>success\<close> of the dictionary. An agent is taken as a
  parameter: what its \<open>run\<close> does with a request in a state \<open>'w\<close> of the world outside
  the coordinator (the completion service, the data provider, the agents' own
  conversation memory). It returns a result or raises, and leaves the world in a new
  state.
\<close>

record agent_result =
  res_agent :: string
  res_input :: string
  res_output :: string
  res_success :: bool

type_synonym 'w agent_run = "string \<Rightarrow> 'w \<Rightarrow> (pyexn + agent_result) \<times> 'w"

section \<open>Coordinator (\<open>OrchestratorAgent\<close>)\<close>

text \<open>
  The object's fields, and with them \<open>world\<close>, the state of the world outside the
  object, which only the calls of the agents change: \<open>await agent.run(query)\<close> applies
  the agent to the request and to the world as it is at that moment.
\<close>

record 'w orchestrator =
  name :: string
  junior_agent :: "'w agent_run option"
  master_agent :: "'w agent_run option"
  workflow_history :: "pydict list"
  world :: 'w

definition init_orchestrator :: "'w \<Rightarrow> 'w orchestrator" where
  "init_orchestrator w =
     \<lparr>name = ''Orchestrator'', junior_agent = None, master_agent = None,
      workflow_history = [], world = w\<rparr>"

definition setup_agents ::
  "'w agent_run \<Rightarrow> 'w agent_run \<Rightarrow> 'w orchestrator \<Rightarrow> 'w orchestrator" where
  "setup_agents junior master self =
     self\<lparr>junior_agent := Some junior, master_agent := Some master\<rparr>"

definition run_agent ::
  "'w agent_run \<Rightarrow> string \<Rightarrow> 'w orchestrator \<Rightarrow> (pyexn + agent_result) \<times> 'w orchestrator" where
  "run_agent a request self =
     (case a request (world self) of (outcome, w') \<Rightarrow> (outcome, self\<lparr>world := w'\<rparr>))"

definition nl :: string where
  "nl = [CHR 0x0A]"

text \<open>The pictographs of the source text, as their UTF-8 bytes.\<close>

definition robot_face :: string where
  "robot_face = [CHR 0xF0, CHR 0x9F, CHR 0xA4, CHR 0x96]"

definition bar_chart :: string where
  "bar_chart = [CHR 0xF0, CHR 0x9F, CHR 0x93, CHR 0x8A]"

definition direct_hit :: string where
  "direct_hit = [CHR 0xF0, CHR 0x9F, CHR 0x8E, CHR 0xAF]"

definition clipboard :: string where
  "clipboard = [CHR 0xF0, CHR 0x9F, CHR 0x93, CHR 0x8B]"

definition warning_sign :: string where
  "warning_sign = [CHR 0xE2, CHR 0x9A, CHR 0xA0, CHR 0xEF, CHR 0xB8, CHR 0x8F]"

definition handle_simple_query ::
  "'w orchestrator \<Rightarrow> string \<Rightarrow> (pyexn + pydict) \<times> 'w orchestrator" where
  "handle_simple_query self query =
     (case junior_agent self of
        None \<Rightarrow> (Inr [(''error'', PStr ''Junior agent not initialized'')], self)
      | Some junior \<Rightarrow>
          (case run_agent junior query self of
             (Inl e, self') \<Rightarrow> (Inl e, self')
           | (Inr result, self') \<Rightarrow>
               (Inr [(''agent'', PStr (name self')),
                     (''input'', PStr query),
                     (''output'',
                        PStr (robot_face @ '' JUNIOR AGENT ANALYSIS:'' @ nl @ nl @ res_output result)),
                     (''sub_agent'', PStr ''Junior''),
                     (''success'', PBool (res_success result))], self')))"

definition handle_complex_query ::
  "'w orchestrator \<Rightarrow> string \<Rightarrow> (pyexn + pydict) \<times> 'w orchestrator" where
  "handle_complex_query self query =
     (case master_agent self of
        None \<Rightarrow> (Inr [(''error'', PStr ''Master agent not initialized'')], self)
      | Some master \<Rightarrow>
          (case run_agent master query self of
             (Inl e, self') \<Rightarrow> (Inl e, self')
           | (Inr result, self') \<Rightarrow>
               (Inr [(''agent'', PStr (name self')),
                     (''input'', PStr query),
                     (''output'',
                        PStr (direct_hit @ '' MASTER AGENT ANALYSIS:'' @ nl @ nl @ res_output result)),
                     (''sub_agent'', PStr ''Master''),
                     (''success'', PBool (res_success result))], self')))"

definition synthesize_results :: "agent_result \<Rightarrow> agent_result \<Rightarrow> string \<Rightarrow> string" where
  "synthesize_results junior_result master_result original_query =
     (let synthesis = robot_face @ '' ORCHESTRATED ANALYSIS: '' @ original_query @ nl @ nl;
          synthesis =
            (if res_success junior_result
             then synthesis @ bar_chart @ '' DATA GATHERING (Junior Agent):'' @ nl
                    @ res_output junior_result @ nl @ nl
             else synthesis);
          synthesis =
            (if res_success master_result
             then synthesis @ direct_hit @ '' ADVANCED ANALYSIS (Master Agent):'' @ nl
                    @ res_output master_result @ nl @ nl
             else synthesis);
          synthesis = synthesis @ clipboard @ '' SYNTHESIS & RECOMMENDATIONS:'' @ nl;
          synthesis = synthesis
            @ ''Based on the comprehensive analysis above, here are the key takeaways:'' @ nl;
          synthesis = synthesis @ ''- Data accuracy verified by Junior Agent'' @ nl;
          synthesis = synthesis @ ''- Strategic insights provided by Master Agent'' @ nl;
          synthesis = synthesis @ ''- Combined analysis provides balanced perspective'' @ nl @ nl;
          synthesis = synthesis @ warning_sign @ '' IMPORTANT NOTES:'' @ nl;
          synthesis = synthesis @ ''- This analysis is for informational purposes only'' @ nl;
          synthesis = synthesis
            @ ''- Always conduct your own research before making investment decisions'' @ nl;
          synthesis = synthesis @ ''- Consider consulting with financial professionals'' @ nl;
          synthesis = synthesis @ ''- Past performance does not guarantee future results''
      in synthesis)"

definition handle_multi_step_query ::
  "'w orchestrator \<Rightarrow> string \<Rightarrow> (pyexn + pydict) \<times> 'w orchestrator" where
  "handle_multi_step_query self query =
     (case (junior_agent self, master_agent self) of
        (Some junior, Some master) \<Rightarrow>
          (case run_agent junior query self of
             (Inl e, self') \<Rightarrow> (Inl e, self')
           | (Inr junior_result, self') \<Rightarrow>
               (case run_agent master query self' of
                  (Inl e, self'') \<Rightarrow> (Inl e, self'')
                | (Inr master_result, self'') \<Rightarrow>
                    (let synthesis = synthesize_results junior_result master_result query
                     in (Inr [(''agent'', PStr (name self'')),
                              (''input'', PStr query),
                              (''output'', PStr synthesis),
                              (''sub_agents'', PList [''Junior'', ''Master'']),
                              (''success'',
                                 PBool (res_success junior_result \<and> res_success master_result))],
                         self''))))
      | _ \<Rightarrow> (Inr [(''error'', PStr ''Agents not initialized'')], self))"

text \<open>
  \<open>orchestrate_analysis\<close>: the \<open>try\<close> block, then the \<open>except Exception\<close> handler, which
  turns an exception of the class \<open>Exception\<close> into a result dictionary and lets any
  other exception pass.
\<close>

definition orchestrate_body ::
  "(string \<Rightarrow> string) \<Rightarrow> 'w orchestrator \<Rightarrow> string \<Rightarrow> (pyexn + pydict) \<times> 'w orchestrator" where
  "orchestrate_body lower self query =
     (let complexity = assess_complexity lower query
      in if complexity = ''simple'' then handle_simple_query self query
         else if complexity = ''complex'' then handle_complex_query self query
         else handle_multi_step_query self query)"

definition orchestrate_analysis ::
  "(string \<Rightarrow> string) \<Rightarrow> 'w orchestrator \<Rightarrow> string \<Rightarrow> (pyexn + pydict) \<times> 'w orchestrator" where
  "orchestrate_analysis lower self query =
     (case orchestrate_body lower self query of
        (Inr r, self') \<Rightarrow> (Inr r, self')
      | (Inl e, self') \<Rightarrow>
          (if is_exception e
           then (Inr [(''agent'', PStr (name self')),
                      (''input'', PStr query),
                      (''output'', PStr (''Error in orchestration: '' @ str_exn e)),
                      (''success'', PBool False)], self')
           else (Inl e, self')))"

definition get_workflow_history :: "'w orchestrator \<Rightarrow> pydict list" where
  "get_workflow_history self = workflow_history self"

definition clear_workflow_history :: "'w orchestrator \<Rightarrow> 'w orchestrator" where
  "clear_workflow_history self = self\<lparr>workflow_history := []\<rparr>"

text \<open>
  What a caller sees of a call: the value under a key of the dictionary it returned,
  if it returned one.
\<close>

definition result_get :: "(pyexn + pydict) \<times> 's \<Rightarrow> string \<Rightarrow> pyval option" where
  "result_get res key = (case fst res of Inl e \<Rightarrow> None | Inr r \<Rightarrow> map_of r key)"

text \<open>The agents a query needs, by its label, and whether they are set up.\<close>

definition required_agents_initialized ::
  "(string \<Rightarrow> string) \<Rightarrow> 'w orchestrator \<Rightarrow> string \<Rightarrow> bool" where
  "required_agents_initialized lower self query =
     (if assess_complexity lower query = ''simple'' then junior_agent self \<noteq> None
      else if assess_complexity lower query = ''complex'' then master_agent self \<noteq> None
      else junior_agent self \<noteq> None \<and> master_agent self \<noteq> None)"

text \<open>The dictionary that reports an exception \<open>e\<close>, named for the statements about it.\<close>

definition error_result :: "'w orchestrator \<Rightarrow> string \<Rightarrow> pyexn \<Rightarrow> pydict" where
  "error_result self query e =
     [(''agent'', PStr (name self)), (''input'', PStr query),
      (''output'', PStr (''Error in orchestration: '' @ str_exn e)),
      (''success'', PBool False)]"

text \<open>The parts of the synthesized text, named for the statements about it.\<close>

definition synthesis_heading :: "string \<Rightarrow> string" where
  "synthesis_heading query = robot_face @ '' ORCHESTRATED ANALYSIS: '' @ query @ nl @ nl"

definition junior_section :: "string \<Rightarrow> string" where
  "junior_section text = bar_chart @ '' DATA GATHERING (Junior Agent):'' @ nl @ text @ nl @ nl"

definition master_section :: "string \<Rightarrow> string" where
  "master_section text = direct_hit @ '' ADVANCED ANALYSIS (Master Agent):'' @ nl @ text @ nl @ nl"

definition synthesis_closing :: string where
  "synthesis_closing =
     clipboard @ '' SYNTHESIS & RECOMMENDATIONS:'' @ nl
     @ ''Based on the comprehensive analysis above, here are the key takeaways:'' @ nl
     @ ''- Data accuracy verified by Junior Agent'' @ nl
     @ ''- Strategic insights provided by Master Agent'' @ nl
     @ ''- Combined analysis provides balanced perspective'' @ nl @ nl
     @ warning_sign @ '' IMPORTANT NOTES:'' @ nl
     @ ''- This analysis is for informational purposes only'' @ nl
     @ ''- Always conduct your own research before making investment decisions'' @ nl
     @ ''- Consider consulting with financial professionals'' @ nl
     @ ''- Past performance does not guarantee future results''"

text \<open>
  Agents for the concrete instances. Their world is the list of the requests received
  so far, each with the role of the agent that received it. One agent answers with a
  given text and success flag, the other raises a given exception.
\<close>

definition answering_agent ::
  "string \<Rightarrow> string \<Rightarrow> bool \<Rightarrow> (string \<times> string) list agent_run" where
  "answering_agent role text ok =
     (\<lambda>request w. (Inr \<lparr>res_agent = role, res_input = request, res_output = text,
                           res_success = ok\<rparr>, w @ [(role, request)]))"

definition raising_agent :: "string \<Rightarrow> pyexn \<Rightarrow> (string \<times> string) list agent_run" where
  "raising_agent role e = (\<lambda>request w. (Inl e, w @ [(role, request)]))"

text \<open>
  A lower-casing function for one concrete instance: it maps \<open>QUIC\<close> followed by the
  Kelvin sign (U+212A, the bytes E2 84 AA) to \<open>quick\<close>, as \<open>str.lower()\<close> does, and is
  \<open>ascii_lower\<close> elsewhere.
\<close>

definition kelvin_lower :: "string \<Rightarrow> string" where
  "kelvin_lower s =
     (if s = ''QUIC'' @ [CHR 0xE2, CHR 0x84, CHR 0xAA] then ''quick'' else ascii_lower s)"

section \<open>Numbers and data frames\<close>

text \<open>
  A float is a real number, one of the two infinities, or NaN. Comparisons with NaN are
  false. Dividing by zero does not raise on these values: it gives an infinity, or NaN
  for \<open>0 / 0\<close>. The arithmetic of the volatility, of the support and resistance and of
  the price change is exact on the reals: rounding is not modelled there. The moving
  averages, where rounding can decide the trend label, are not computed by the model:
  the float64 mean of a window is a parameter.
\<close>

datatype pyfloat = Fin real | PosInf | NegInf | NaN

fun f_lt :: "pyfloat \<Rightarrow> pyfloat \<Rightarrow> bool" where
  "f_lt (Fin a) (Fin b) = (a < b)"
| "f_lt (Fin a) PosInf = True"
| "f_lt NegInf (Fin b) = True"
| "f_lt NegInf PosInf = True"
| "f_lt x y = False"

definition f_gt :: "pyfloat \<Rightarrow> pyfloat \<Rightarrow> bool" where
  "f_gt x y = f_lt y x"

definition f_div :: "real \<Rightarrow> real \<Rightarrow> pyfloat" where
  "f_div a b =
     (if b = 0 then (if a = 0 then NaN else if a > 0 then PosInf else NegInf)
      else Fin (a / b))"

text \<open>
  \<open>f_map g\<close> applies \<open>g\<close> to a finite value and keeps an infinity or NaN. It is used
  for \<open>x - 1\<close> and \<open>x * 100\<close> only, which keep them too.
\<close>

fun f_map :: "(real \<Rightarrow> real) \<Rightarrow> pyfloat \<Rightarrow> pyfloat" where
  "f_map g (Fin a) = Fin (g a)"
| "f_map g x = x"

text \<open>
  A data frame is its columns, by name. The columns are float64 columns, as the
  provider returns them: a cell is a number, or \<open>None\<close> for NaN, a missing value.
  Columns of other types and infinite cells are not modelled. The columns of a frame
  have one length, the number of rows.
\<close>

type_synonym cell = "real option"

type_synonym dataframe = "(string \<times> cell list) list"

fun of_cell :: "cell \<Rightarrow> pyfloat" where
  "of_cell None = NaN"
| "of_cell (Some x) = Fin x"

fun df_len :: "dataframe \<Rightarrow> nat" where
  "df_len [] = 0"
| "df_len ((c, xs) # cols) = length xs"

definition df_empty :: "dataframe \<Rightarrow> bool" where
  "df_empty df = (df_len df = 0)"

definition wf_df :: "dataframe \<Rightarrow> bool" where
  "wf_df df = list_all (\<lambda>(c, xs). length xs = df_len df) df"

definition getcol :: "dataframe \<Rightarrow> string \<Rightarrow> pyexn + cell list" where
  "getcol df c = (case map_of df c of None \<Rightarrow> Inl (KeyError c) | Some xs \<Rightarrow> Inr xs)"

definition iloc_last :: "'a list \<Rightarrow> pyexn + 'a" where
  "iloc_last xs =
     (if xs = [] then Inl (IndexError ''single positional indexer is out-of-bounds'')
      else Inr (last xs))"

definition iloc_first :: "'a list \<Rightarrow> pyexn + 'a" where
  "iloc_first xs =
     (case xs of [] \<Rightarrow> Inl (IndexError ''single positional indexer is out-of-bounds'')
      | x # _ \<Rightarrow> Inr x)"

text \<open>The numbers of a column, without its missing values (\<open>skipna\<close>).\<close>

fun present :: "cell list \<Rightarrow> real list" where
  "present [] = []"
| "present (None # cs) = present cs"
| "present (Some x # cs) = x # present cs"

text \<open>
  \<open>rolling(window).mean()\<close>: NaN until the window is full, NaN when a cell of the window
  is missing (\<open>min_periods\<close> is the window), and otherwise the mean of the last \<open>window\<close>
  cells as pandas computes it in float64. That value is the parameter \<open>mean_at\<close>:
  \<open>mean_at window col i\<close> is the mean for the window that ends at row \<open>i\<close> of \<open>col\<close>.
\<close>

definition rolling_mean ::
  "(nat \<Rightarrow> cell list \<Rightarrow> nat \<Rightarrow> real) \<Rightarrow> nat \<Rightarrow> cell list \<Rightarrow> pyfloat list" where
  "rolling_mean mean_at window col =
     map (\<lambda>i. if i + 1 < window then NaN
              else if list_ex (\<lambda>c. c = None) (take window (drop (i + 1 - window) col)) then NaN
              else Fin (mean_at window col i))
       [0..<length col]"

text \<open>
  \<open>pct_change()\<close> with its default \<open>fill_method='pad'\<close> (pandas before 3.0): a missing
  value is first replaced by the last value before it, then the first row is NaN and
  every other row is \<open>x / previous - 1\<close>, which is NaN when either cell is still missing.
\<close>

fun ffill_from :: "cell \<Rightarrow> cell list \<Rightarrow> cell list" where
  "ffill_from prev [] = []"
| "ffill_from prev (None # cs) = prev # ffill_from prev cs"
| "ffill_from prev (Some x # cs) = Some x # ffill_from (Some x) cs"

definition ffill :: "cell list \<Rightarrow> cell list" where
  "ffill col = ffill_from None col"

fun c_div :: "cell \<Rightarrow> cell \<Rightarrow> pyfloat" where
  "c_div (Some a) (Some b) = f_div a b"
| "c_div x y = NaN"

fun c_sub :: "cell \<Rightarrow> cell \<Rightarrow> cell" where
  "c_sub (Some a) (Some b) = Some (a - b)"
| "c_sub x y = None"

fun changes :: "cell \<Rightarrow> cell list \<Rightarrow> pyfloat list" where
  "changes prev [] = []"
| "changes prev (x # xs) = f_map (\<lambda>r. r - 1) (c_div x prev) # changes x xs"

definition pct_change :: "cell list \<Rightarrow> pyfloat list" where
  "pct_change col = (case ffill col of [] \<Rightarrow> [] | x # xs \<Rightarrow> NaN # changes x xs)"

fun finite_values :: "pyfloat list \<Rightarrow> real list option" where
  "finite_values [] = Some []"
| "finite_values (Fin a # xs) = map_option (\<lambda>rs. a # rs) (finite_values xs)"
| "finite_values (x # xs) = None"

text \<open>
  \<open>Series.std()\<close> with its defaults \<open>skipna=True\<close> and \<open>ddof=1\<close>: NaN entries are
  dropped; with at most one value left the result is NaN; an infinity among the values
  makes it NaN.
\<close>

definition std :: "pyfloat list \<Rightarrow> pyfloat" where
  "std xs =
     (let vals = filter (\<lambda>x. x \<noteq> NaN) xs; count = length vals
      in if count \<le> 1 then NaN
         else (case finite_values vals of
                 None \<Rightarrow> NaN
               | Some rs \<Rightarrow>
                   (let avg = sum_list rs / real count
                    in Fin (sqrt (sum_list (map (\<lambda>v. (avg - v)\<^sup>2) rs) / real (count - 1))))))"

definition tail :: "nat \<Rightarrow> 'a list \<Rightarrow> 'a list" where
  "tail n xs = drop (length xs - n) xs"

text \<open>\<open>min()\<close> and \<open>max()\<close> of a column skip its missing values; with no value left
  they are NaN.\<close>

definition col_min :: "cell list \<Rightarrow> pyfloat" where
  "col_min col = (case present col of [] \<Rightarrow> NaN | x # xs \<Rightarrow> Fin (fold min xs x))"

definition col_max :: "cell list \<Rightarrow> pyfloat" where
  "col_max col = (case present col of [] \<Rightarrow> NaN | x # xs \<Rightarrow> Fin (fold max xs x))"

section \<open>Stock tools (\<open>StockAnalysisTool._run\<close>, \<open>StockHistoryTool._run\<close>)\<close>

text \<open>
  The market-data provider is a parameter: \<open>yf.Ticker(symbol).history(period)\<close>, which
  returns a frame or raises. A tool's text is kept in its parts: a report is its first
  line and then its lines \<open>label: value\<close>, and a value carries the number and the format
  it is printed in (\<open>Money\<close> for \<open>${x:.2f}\<close>, \<open>Percent\<close> for \<open>{x:.2f}%\<close>, \<open>Grouped\<close> for
  \<open>{x:,}\<close>), so that the digits printed for a float are not modelled.
\<close>

type_synonym history_provider = "string \<Rightarrow> string \<Rightarrow> pyexn + dataframe"

datatype field = Money pyfloat | Percent pyfloat | Grouped pyfloat | Plain string

datatype tool_output = Text string | Report string "(string \<times> field) list"

definition then_do :: "pyexn + 'a \<Rightarrow> ('a \<Rightarrow> pyexn + 'b) \<Rightarrow> pyexn + 'b" where
  "then_do m f = (case m of Inl e \<Rightarrow> Inl e | Inr x \<Rightarrow> f x)"

text \<open>
  The trend analysis, the volatility and the support and resistance levels of
  \<open>StockAnalysisTool._run\<close>, each under a name of its own so that statements can refer
  to it.
\<close>

definition trend :: "pyfloat \<Rightarrow> pyfloat \<Rightarrow> pyfloat \<Rightarrow> string" where
  "trend current_price ma20 ma50 =
     (if f_gt current_price ma20 \<and> f_gt ma20 ma50
      then ''Bullish (Price above 20MA, 20MA above 50MA)''
      else if f_lt current_price ma20 \<and> f_lt ma20 ma50
      then ''Bearish (Price below 20MA, 20MA below 50MA)''
      else ''Mixed/Neutral'')"

definition volatility_of :: "cell list \<Rightarrow> pyfloat" where
  "volatility_of close = f_map (\<lambda>v. v * 100) (std (pct_change close))"

definition support_of :: "cell list \<Rightarrow> pyfloat" where
  "support_of low = col_min (tail 20 low)"

definition resistance_of :: "cell list \<Rightarrow> pyfloat" where
  "resistance_of high = col_max (tail 20 high)"

text \<open>
  \<open>StockAnalysisTool._run\<close>: first the \<open>try\<close> block, in which a failing step ends the
  block with its exception, then the \<open>except Exception\<close> handler around it. \<open>upper\<close> is
  \<open>str.upper\<close> and \<open>mean_at\<close> the float64 mean of a window.
\<close>

definition stock_analysis_try ::
  "(string \<Rightarrow> string) \<Rightarrow> (nat \<Rightarrow> cell list \<Rightarrow> nat \<Rightarrow> real) \<Rightarrow> history_provider \<Rightarrow> string
     \<Rightarrow> pyexn + tool_output" where
  "stock_analysis_try upper mean_at history symbol =
     then_do (history (upper symbol) ''3mo'') (\<lambda>hist.
       if df_empty hist
       then Inr (Text (''No data available for analysis of '' @ upper symbol))
       else
         then_do (getcol hist ''Close'') (\<lambda>close.
         let ma20_col = rolling_mean mean_at 20 close;
             ma50_col = rolling_mean mean_at 50 close
         in
         then_do (iloc_last close) (\<lambda>current_price.
         then_do (iloc_last ma20_col) (\<lambda>ma20.
         then_do (iloc_last ma50_col) (\<lambda>ma50.
         let volatility = volatility_of close in
         then_do (getcol hist ''Low'') (\<lambda>low.
         let support = support_of low in
         then_do (getcol hist ''High'') (\<lambda>high.
         let resistance = resistance_of high in
         Inr (Report (''Technical Analysis for '' @ upper symbol @ '':'')
                [(''Current Price'', Money (of_cell current_price)),
                 (''20-day MA'', Money ma20),
                 (''50-day MA'', Money ma50),
                 (''Trend'', Plain (trend (of_cell current_price) ma20 ma50)),
                 (''Volatility (3-month)'', Percent volatility),
                 (''Recent Support'', Money support),
                 (''Recent Resistance'', Money resistance)]))))))))"

definition stock_analysis_run ::
  "(string \<Rightarrow> string) \<Rightarrow> (nat \<Rightarrow> cell list \<Rightarrow> nat \<Rightarrow> real) \<Rightarrow> history_provider \<Rightarrow> string
     \<Rightarrow> pyexn + tool_output" where
  "stock_analysis_run upper mean_at history symbol =
     (case stock_analysis_try upper mean_at history symbol of
        Inr out \<Rightarrow> Inr out
      | Inl e \<Rightarrow>
          (if is_exception e
           then Inr (Text (''Error analyzing stock '' @ symbol @ '': '' @ str_exn e))
           else Inl e))"

text \<open>\<open>StockHistoryTool._run\<close>, in the same two parts.\<close>

definition stock_history_try ::
  "(string \<Rightarrow> string) \<Rightarrow> history_provider \<Rightarrow> string \<Rightarrow> string \<Rightarrow> pyexn + tool_output" where
  "stock_history_try upper history symbol period =
     then_do (history (upper symbol) period) (\<lambda>hist.
       if df_empty hist
       then Inr (Text (''No historical data found for '' @ upper symbol))
       else
         then_do (getcol hist ''Close'') (\<lambda>close.
         then_do (iloc_last close) (\<lambda>latest_close.
         then_do (getcol hist ''Volume'') (\<lambda>volume.
         then_do (iloc_last volume) (\<lambda>latest_volume.
         then_do (getcol hist ''High'') (\<lambda>high.
         then_do (getcol hist ''Low'') (\<lambda>low.
         then_do (iloc_first close) (\<lambda>earliest_close.
         Inr (Report (''Historical data for '' @ upper symbol @ '' ('' @ period @ ''):'')
                [(''Latest Close'', Money (of_cell latest_close)),
                 (''Latest Volume'', Grouped (of_cell latest_volume)),
                 (''Period High'', Money (col_max high)),
                 (''Period Low'', Money (col_min low)),
                 (''Price Change'', Money (of_cell (c_sub latest_close earliest_close))),
                 (''Percent Change'',
                    Percent (f_map (\<lambda>v. v * 100)
                      (c_div (c_sub latest_close earliest_close) earliest_close)))])))))))))"

definition stock_history_run ::
  "(string \<Rightarrow> string) \<Rightarrow> history_provider \<Rightarrow> string \<Rightarrow> string \<Rightarrow> pyexn + tool_output" where
  "stock_history_run upper history symbol period =
     (case stock_history_try upper history symbol period of
        Inr out \<Rightarrow> Inr out
      | Inl e \<Rightarrow>
          (if is_exception e
           then Inr (Text (''Error getting stock history for '' @ symbol @ '': '' @ str_exn e))
           else Inl e))"

text \<open>The sample standard deviation of the spec: the squared deviations from the mean,
  summed, over \<open>n - 1\<close>, under the root.\<close>

definition sample_std :: "real list \<Rightarrow> real" where
  "sample_std rs =
     sqrt ((\<Sum>r\<leftarrow>rs. (r - sum_list rs / real (length rs))\<^sup>2) / (real (length rs) - 1))"

text \<open>The period-over-period changes of the spec, as fractions: each close against
  the close before it.\<close>

definition period_changes :: "real list \<Rightarrow> real list" where
  "period_changes close = map (\<lambda>(previous, current). current / previous - 1) (zip close (tl close))"

text \<open>
  What a caller reads in a tool's answer: the labels of its lines, in order, and the
  value printed under a label. A plain message has no lines.
\<close>

fun report_labels :: "pyexn + tool_output \<Rightarrow> string list" where
  "report_labels (Inr (Report h ls)) = map fst ls"
| "report_labels other = []"

fun report_field :: "pyexn + tool_output \<Rightarrow> string \<Rightarrow> field option" where
  "report_field (Inr (Report h ls)) label = map_of ls label"
| "report_field other label = None"

text \<open>
  For the concrete instances: the exact mean of a window, and providers. One listing
  has two trading days at one price, one has four, one has three days of rising prices,
  one has 22 days with its lowest low and its highest high in the first two days, one
  has its last close missing, one has no data, and one provider fails.
\<close>

definition exact_mean :: "nat \<Rightarrow> cell list \<Rightarrow> nat \<Rightarrow> real" where
  "exact_mean window col i =
     sum_list (present (take window (drop (i + 1 - window) col))) / real window"

definition two_day_history :: history_provider where
  "two_day_history symbol period =
     Inr [(''Open'', map Some [100, 100]), (''High'', map Some [101, 101]),
          (''Low'', map Some [99, 99]), (''Close'', map Some [100, 100]),
          (''Volume'', map Some [5000, 7000])]"

definition four_day_history :: history_provider where
  "four_day_history symbol period =
     Inr [(''Open'', map Some [50, 50, 50, 50]), (''High'', map Some [52, 51, 53, 51]),
          (''Low'', map Some [49, 48, 49, 47]), (''Close'', map Some [50, 50, 50, 50]),
          (''Volume'', map Some [5000, 7000, 6000, 4000])]"

definition three_day_history :: history_provider where
  "three_day_history symbol period =
     Inr [(''Open'', map Some [100, 108, 112]), (''High'', map Some [104, 111, 121]),
          (''Low'', map Some [99, 107, 111]), (''Close'', map Some [100, 110, 120]),
          (''Volume'', map Some [5000, 7000, 6000])]"

definition long_history :: history_provider where
  "long_history symbol period =
     Inr [(''Open'', map Some (replicate 22 10)),
          (''High'', map Some (100 # 90 # replicate 19 12 @ [11])),
          (''Low'', map Some (1 # 2 # replicate 19 10 @ [9])),
          (''Close'', map Some (replicate 22 10)),
          (''Volume'', map Some (replicate 22 5000))]"




section \<open>Properties of the classifier\<close>

lemma starts_with_prefix: "starts_with k s = prefix k s"
  by (induction k s rule: starts_with.induct) auto

lemma py_in_sublist: "py_in k s = sublist k s"
proof (induction s)
  case Nil
  show ?case by auto
next
  case (Cons c cs)
  show ?case
  proof (cases k)
    case Nil
    then show ?thesis by simp
  next
    case (Cons a as)
    with Cons.IH show ?thesis
      by (simp add: starts_with_prefix sublist_Cons_right del: starts_with.simps)
  qed
qed

lemma keyword_count_length:
  "keyword_count ks s = int (length (filter (\<lambda>k. py_in k s) ks))"
  unfolding keyword_count_def by (induction ks) auto

lemma keyword_count_card:
  assumes "distinct ks"
  shows "keyword_count ks s = int (card {k \<in> set ks. sublist k s})"
proof -
  have "distinct (filter (\<lambda>k. py_in k s) ks)"
    using assms by simp
  then have "card (set (filter (\<lambda>k. py_in k s) ks)) = length (filter (\<lambda>k. py_in k s) ks)"
    by (rule distinct_card)
  moreover have "set (filter (\<lambda>k. py_in k s) ks) = {k \<in> set ks. sublist k s}"
    by (auto simp: py_in_sublist)
  ultimately show ?thesis
    by (simp add: keyword_count_length)
qed

lemma distinct_simple_keywords: "distinct simple_keywords"
  by (simp add: simple_keywords_def)

lemma distinct_complex_keywords: "distinct complex_keywords"
  by (simp add: complex_keywords_def)

lemma lower_upper_char: "lower_char (upper_char c) = lower_char c"
proof -
  define n where "n = (of_char c :: nat)"
  have c: "c = char_of n"
    unfolding n_def by simp
  show ?thesis
  proof (cases "97 \<le> n \<and> n \<le> 122")
    case True
    then have u: "upper_char c = char_of (n - 32)"
      by (simp add: upper_char_def n_def Let_def)
    from True have "n - 32 < 256" by arith
    then have m: "(n - 32) mod 256 = n - 32" by (rule mod_less)
    from True have r: "65 \<le> n - 32 \<and> n - 32 \<le> 90" by arith
    from True have b: "n - 32 + 32 = n" by arith
    have "(of_char (char_of (n - 32)) :: nat) = n - 32"
      by (simp add: m)
    with r have "lower_char (char_of (n - 32)) = char_of (n - 32 + 32)"
      by (simp add: lower_char_def Let_def)
    with b c u have 1: "lower_char (upper_char c) = c"
      by simp
    from True have "lower_char c = c"
      by (simp add: lower_char_def n_def Let_def)
    with 1 show ?thesis by simp
  next
    case False
    then have "upper_char c = c"
      by (auto simp add: upper_char_def n_def Let_def)
    then show ?thesis by simp
  qed
qed

lemma ascii_lower_upper: "ascii_lower (ascii_upper s) = ascii_lower s"
  by (simp add: ascii_lower_def ascii_upper_def lower_upper_char)

lemma of_char_upper_char: "(of_char (upper_char c) :: nat) \<le> of_char c"
proof -
  define n where "n = (of_char c :: nat)"
  show ?thesis
  proof (cases "97 \<le> n \<and> n \<le> 122")
    case True
    then have "n - 32 < 256" by arith
    then have "(n - 32) mod 256 = n - 32" by (rule mod_less)
    then have "(of_char (char_of (n - 32)) :: nat) = n - 32" by simp
    with True show ?thesis
      by (simp add: upper_char_def n_def [symmetric] Let_def)
  next
    case False
    then show ?thesis
      by (auto simp add: upper_char_def n_def [symmetric] Let_def)
  qed
qed

lemma is_ascii_upper: "is_ascii s \<Longrightarrow> is_ascii (ascii_upper s)"
proof (induction s)
  case Nil
  show ?case by (simp add: is_ascii_def ascii_upper_def)
next
  case (Cons c s)
  then have c: "(of_char c :: nat) < 128" and s: "is_ascii (ascii_upper s)"
    by (simp_all add: is_ascii_def)
  from c of_char_upper_char [of c] have "(of_char (upper_char c) :: nat) < 128"
    by (rule_tac le_less_trans)
  with s show ?case
    by (simp add: is_ascii_def ascii_upper_def)
qed

text \<open>
  C1. The classifier lower-cases the query with \<open>str.lower\<close>, counts the simple and the
  complex keywords that occur as substrings of the lower-cased query, and answers
  \<open>complex\<close> when the complex count exceeds the simple count, \<open>simple\<close> when the simple
  count is positive and the complex count is zero, and \<open>multi_step\<close> in every remaining
  case. The empty query, which \<open>str.lower\<close> leaves empty, and every tie of two equal
  nonzero counts are \<open>multi_step\<close>. The statement holds for every function in the place
  of \<open>str.lower\<close>; as that function lower-cases ASCII text, the label of an ASCII query
  does not change when the query is put in upper case.
\<close>

theorem assess_complexity_policy:
  "simple_count lower q = int (card {k \<in> set simple_keywords. sublist k (lower q)}) \<and>
   complex_count lower q = int (card {k \<in> set complex_keywords. sublist k (lower q)}) \<and>
   (complex_count lower q > simple_count lower q \<longrightarrow> assess_complexity lower q = ''complex'') \<and>
   (simple_count lower q > 0 \<and> complex_count lower q = 0
      \<longrightarrow> assess_complexity lower q = ''simple'') \<and>
   (\<not> complex_count lower q > simple_count lower q \<and>
    \<not> (simple_count lower q > 0 \<and> complex_count lower q = 0)
      \<longrightarrow> assess_complexity lower q = ''multi_step'') \<and>
   (lower [] = [] \<longrightarrow> assess_complexity lower [] = ''multi_step'') \<and>
   (simple_count lower q = complex_count lower q \<and> simple_count lower q \<noteq> 0
      \<longrightarrow> assess_complexity lower q = ''multi_step'') \<and>
   (lowers_ascii lower \<and> is_ascii q
      \<longrightarrow> lower q = map lower_char q \<and>
          assess_complexity lower (ascii_upper q) = assess_complexity lower q)"
proof -
  have empty: "assess_complexity lower [] = ''multi_step''" if "lower [] = []"
    using that
    by (simp add: assess_complexity_def simple_count_def complex_count_def
        keyword_count_def simple_keywords_def complex_keywords_def)
  have sc: "simple_count lower q = int (card {k \<in> set simple_keywords. sublist k (lower q)})"
    by (simp add: simple_count_def keyword_count_card distinct_simple_keywords)
  have cc: "complex_count lower q = int (card {k \<in> set complex_keywords. sublist k (lower q)})"
    by (simp add: complex_count_def keyword_count_card distinct_complex_keywords)
  have policy:
    "(complex_count lower q > simple_count lower q \<longrightarrow> assess_complexity lower q = ''complex'') \<and>
     (simple_count lower q > 0 \<and> complex_count lower q = 0
        \<longrightarrow> assess_complexity lower q = ''simple'') \<and>
     (\<not> complex_count lower q > simple_count lower q \<and>
      \<not> (simple_count lower q > 0 \<and> complex_count lower q = 0)
        \<longrightarrow> assess_complexity lower q = ''multi_step'') \<and>
     (simple_count lower q = complex_count lower q \<and> simple_count lower q \<noteq> 0
        \<longrightarrow> assess_complexity lower q = ''multi_step'')"
    unfolding assess_complexity_def by auto
  have ascii: "lower q = map lower_char q \<and>
      assess_complexity lower (ascii_upper q) = assess_complexity lower q"
    if l: "lowers_ascii lower" and a: "is_ascii q"
  proof -
    from l a have 1: "lower q = ascii_lower q"
      by (simp add: lowers_ascii_def)
    from l is_ascii_upper [OF a] have "lower (ascii_upper q) = ascii_lower (ascii_upper q)"
      by (simp add: lowers_ascii_def)
    with 1 have "lower (ascii_upper q) = lower q"
      by (simp add: ascii_lower_upper)
    then have "assess_complexity lower (ascii_upper q) = assess_complexity lower q"
      by (simp add: assess_complexity_def simple_count_def complex_count_def)
    with 1 show ?thesis
      by (simp add: ascii_lower_def)
  qed
  from sc cc policy empty ascii show ?thesis by blast
qed

theorem assess_complexity_policy_witness:
  "assess_complexity ascii_lower ''Stock Price'' = ''simple'' \<and>
   assess_complexity ascii_lower ''detailed analysis'' = ''complex'' \<and>
   simple_count ascii_lower ''Price Analysis'' = 1 \<and>
   complex_count ascii_lower ''Price Analysis'' = 1 \<and>
   assess_complexity ascii_lower ''Price Analysis'' = ''multi_step'' \<and>
   assess_complexity ascii_lower [] = ''multi_step'' \<and>
   assess_complexity ascii_lower (ascii_upper ''Stock Price'') = ''simple'' \<and>
   assess_complexity kelvin_lower (''QUIC'' @ [CHR 0xE2, CHR 0x84, CHR 0xAA]) = ''simple''"
proof -
  have a: "simple_count ascii_lower ''Stock Price'' > 0 \<and>
      complex_count ascii_lower ''Stock Price'' = 0"
    by code_simp
  have b: "complex_count ascii_lower ''detailed analysis''
      > simple_count ascii_lower ''detailed analysis''"
    by code_simp
  have c: "simple_count ascii_lower ''Price Analysis'' = 1 \<and>
      complex_count ascii_lower ''Price Analysis'' = 1"
    by code_simp
  then have c': "simple_count ascii_lower ''Price Analysis''
        = complex_count ascii_lower ''Price Analysis'' \<and>
      simple_count ascii_lower ''Price Analysis'' \<noteq> 0"
    by simp
  have d: "ascii_lower [] = []"
    by (simp add: ascii_lower_def)
  have e: "lowers_ascii ascii_lower \<and> is_ascii ''Stock Price''"
    by (simp add: lowers_ascii_def is_ascii_def)
  have f: "simple_count kelvin_lower (''QUIC'' @ [CHR 0xE2, CHR 0x84, CHR 0xAA]) > 0 \<and>
      complex_count kelvin_lower (''QUIC'' @ [CHR 0xE2, CHR 0x84, CHR 0xAA]) = 0"
    by code_simp
  from a assess_complexity_policy [of ascii_lower "''Stock Price''"]
  have 1: "assess_complexity ascii_lower ''Stock Price'' = ''simple''" by blast
  from b assess_complexity_policy [of ascii_lower "''detailed analysis''"]
  have 2: "assess_complexity ascii_lower ''detailed analysis'' = ''complex''" by blast
  from c' assess_complexity_policy [of ascii_lower "''Price Analysis''"]
  have 3: "assess_complexity ascii_lower ''Price Analysis'' = ''multi_step''" by blast
  from d assess_complexity_policy [of ascii_lower "[]"]
  have 4: "assess_complexity ascii_lower [] = ''multi_step''" by blast
  from e 1 assess_complexity_policy [of ascii_lower "''Stock Price''"]
  have 5: "assess_complexity ascii_lower (ascii_upper ''Stock Price'') = ''simple''" by metis
  from f assess_complexity_policy [of kelvin_lower "''QUIC'' @ [CHR 0xE2, CHR 0x84, CHR 0xAA]"]
  have 6: "assess_complexity kelvin_lower (''QUIC'' @ [CHR 0xE2, CHR 0x84, CHR 0xAA]) = ''simple''"
    by blast
  from 1 2 3 4 5 6 c show ?thesis by blast
qed


section \<open>Properties of the coordinator\<close>

lemma synthesize_results_parts:
  "synthesize_results jr mr q =
     synthesis_heading q
     @ (if res_success jr then junior_section (res_output jr) else [])
     @ (if res_success mr then master_section (res_output mr) else [])
     @ synthesis_closing"
  unfolding synthesize_results_def synthesis_heading_def junior_section_def
    master_section_def synthesis_closing_def Let_def
  by (cases "res_success jr"; cases "res_success mr";
      simp only: if_True if_False append_assoc append_Nil append_Nil2)

lemma orchestrate_simple:
  assumes "assess_complexity lower q = ''simple''" and "junior_agent self = Some j"
  shows "orchestrate_analysis lower self q =
     (case j q (world self) of
        (Inr jr, w) \<Rightarrow>
          (Inr [(''agent'', PStr (name self)), (''input'', PStr q),
                (''output'',
                   PStr (robot_face @ '' JUNIOR AGENT ANALYSIS:'' @ nl @ nl @ res_output jr)),
                (''sub_agent'', PStr ''Junior''),
                (''success'', PBool (res_success jr))], self\<lparr>world := w\<rparr>)
      | (Inl e, w) \<Rightarrow>
          (if is_exception e then Inr (error_result self q e) else Inl e, self\<lparr>world := w\<rparr>))"
  using assms
  by (simp add: orchestrate_analysis_def orchestrate_body_def handle_simple_query_def
      run_agent_def error_result_def Let_def split: sum.splits prod.splits)

lemma orchestrate_complex:
  assumes "assess_complexity lower q \<noteq> ''simple''" and "assess_complexity lower q = ''complex''"
    and "master_agent self = Some m"
  shows "orchestrate_analysis lower self q =
     (case m q (world self) of
        (Inr mr, w) \<Rightarrow>
          (Inr [(''agent'', PStr (name self)), (''input'', PStr q),
                (''output'',
                   PStr (direct_hit @ '' MASTER AGENT ANALYSIS:'' @ nl @ nl @ res_output mr)),
                (''sub_agent'', PStr ''Master''),
                (''success'', PBool (res_success mr))], self\<lparr>world := w\<rparr>)
      | (Inl e, w) \<Rightarrow>
          (if is_exception e then Inr (error_result self q e) else Inl e, self\<lparr>world := w\<rparr>))"
  using assms
  by (simp add: orchestrate_analysis_def orchestrate_body_def handle_complex_query_def
      run_agent_def error_result_def Let_def split: sum.splits prod.splits)

lemma orchestrate_multi_step_junior_raises:
  assumes "assess_complexity lower q \<noteq> ''simple''" and "assess_complexity lower q \<noteq> ''complex''"
    and "junior_agent self = Some j" and "master_agent self = Some m"
    and "j q (world self) = (Inl e, w1)"
  shows "orchestrate_analysis lower self q =
     (if is_exception e then Inr (error_result self q e) else Inl e, self\<lparr>world := w1\<rparr>)"
  using assms
  by (simp add: orchestrate_analysis_def orchestrate_body_def handle_multi_step_query_def
      run_agent_def error_result_def Let_def)

lemma orchestrate_multi_step_junior_returns:
  assumes "assess_complexity lower q \<noteq> ''simple''" and "assess_complexity lower q \<noteq> ''complex''"
    and "junior_agent self = Some j" and "master_agent self = Some m"
    and "j q (world self) = (Inr jr, w1)"
  shows "orchestrate_analysis lower self q =
     (case m q w1 of
        (Inr mr, w2) \<Rightarrow>
          (Inr [(''agent'', PStr (name self)), (''input'', PStr q),
                (''output'', PStr (synthesize_results jr mr q)),
                (''sub_agents'', PList [''Junior'', ''Master'']),
                (''success'', PBool (res_success jr \<and> res_success mr))],
           self\<lparr>world := w2\<rparr>)
      | (Inl e, w2) \<Rightarrow>
          (if is_exception e then Inr (error_result self q e) else Inl e, self\<lparr>world := w2\<rparr>))"
  using assms
  by (simp add: orchestrate_analysis_def orchestrate_body_def handle_multi_step_query_def
      run_agent_def error_result_def Let_def split: sum.splits prod.splits)

lemma orchestrate_simple_uninitialized:
  assumes "assess_complexity lower q = ''simple''" and "junior_agent self = None"
  shows "orchestrate_analysis lower self q
           = (Inr [(''error'', PStr ''Junior agent not initialized'')], self)"
  using assms
  by (simp add: orchestrate_analysis_def orchestrate_body_def handle_simple_query_def)

lemma orchestrate_complex_uninitialized:
  assumes "assess_complexity lower q \<noteq> ''simple''" and "assess_complexity lower q = ''complex''"
    and "master_agent self = None"
  shows "orchestrate_analysis lower self q
           = (Inr [(''error'', PStr ''Master agent not initialized'')], self)"
  using assms
  by (simp add: orchestrate_analysis_def orchestrate_body_def handle_complex_query_def)

lemma orchestrate_multi_step_uninitialized:
  assumes "assess_complexity lower q \<noteq> ''simple''" and "assess_complexity lower q \<noteq> ''complex''"
    and "junior_agent self = None \<or> master_agent self = None"
  shows "orchestrate_analysis lower self q
           = (Inr [(''error'', PStr ''Agents not initialized'')], self)"
  using assms
  by (auto simp add: orchestrate_analysis_def orchestrate_body_def handle_multi_step_query_def
      split: option.splits)

lemma orchestrate_history:
  "workflow_history (snd (orchestrate_analysis lower self q)) = workflow_history self"
proof -
  consider (s) "assess_complexity lower q = ''simple''"
    | (c) "assess_complexity lower q \<noteq> ''simple''" "assess_complexity lower q = ''complex''"
    | (m) "assess_complexity lower q \<noteq> ''simple''" "assess_complexity lower q \<noteq> ''complex''"
    by blast
  then show ?thesis
  proof cases
    case s
    show ?thesis
    proof (cases "junior_agent self")
      case None
      with s show ?thesis by (simp add: orchestrate_simple_uninitialized)
    next
      case (Some j)
      show ?thesis
        by (simp add: orchestrate_simple [OF s Some] split: prod.splits sum.splits)
    qed
  next
    case c
    show ?thesis
    proof (cases "master_agent self")
      case None
      with c show ?thesis by (simp add: orchestrate_complex_uninitialized)
    next
      case (Some ma)
      show ?thesis
        by (simp add: orchestrate_complex [OF c Some] split: prod.splits sum.splits)
    qed
  next
    case m
    show ?thesis
    proof (cases "junior_agent self = None \<or> master_agent self = None")
      case True
      with m show ?thesis by (simp add: orchestrate_multi_step_uninitialized)
    next
      case False
      then obtain j ma where jm: "junior_agent self = Some j" "master_agent self = Some ma"
        by auto
      obtain r w1 where r: "j q (world self) = (r, w1)"
        by (cases "j q (world self)") auto
      show ?thesis
      proof (cases r)
        case (Inl e)
        with r show ?thesis
          by (simp add: orchestrate_multi_step_junior_raises [OF m jm])
      next
        case (Inr jr)
        with r show ?thesis
          by (simp add: orchestrate_multi_step_junior_returns [OF m jm]
              split: prod.splits sum.splits)
      qed
    qed
  qed
qed

lemma orchestrate_raises_no_exception:
  "fst (orchestrate_analysis lower self q) = Inl e \<Longrightarrow> \<not> is_exception e"
  by (auto simp add: orchestrate_analysis_def split: prod.splits sum.splits if_splits)

text \<open>
  C2. In a multi-step orchestration whose two agent calls return, the success flag of the
  result is the conjunction of the two agents' success flags, and the output text is the
  heading, then the Junior section if the Junior call succeeded, then the Master section
  if the Master call succeeded, then the closing text: a failed agent's section is left
  out, and the other agent's section stays in.
\<close>

theorem multi_step_success_and_synthesis:
  assumes "assess_complexity lower q \<noteq> ''simple''" and "assess_complexity lower q \<noteq> ''complex''"
    and "junior_agent self = Some j" and "master_agent self = Some m"
    and "j q (world self) = (Inr jr, w1)" and "m q w1 = (Inr mr, w2)"
  shows "result_get (orchestrate_analysis lower self q) ''success''
           = Some (PBool (res_success jr \<and> res_success mr)) \<and>
         result_get (orchestrate_analysis lower self q) ''output''
           = Some (PStr (synthesize_results jr mr q)) \<and>
         synthesize_results jr mr q =
           synthesis_heading q
           @ (if res_success jr then junior_section (res_output jr) else [])
           @ (if res_success mr then master_section (res_output mr) else [])
           @ synthesis_closing \<and>
         (res_success jr \<longrightarrow> sublist (junior_section (res_output jr)) (synthesize_results jr mr q)) \<and>
         (res_success mr \<longrightarrow> sublist (master_section (res_output mr)) (synthesize_results jr mr q))"
proof -
  have run: "orchestrate_analysis lower self q =
      (Inr [(''agent'', PStr (name self)), (''input'', PStr q),
            (''output'', PStr (synthesize_results jr mr q)),
            (''sub_agents'', PList [''Junior'', ''Master'']),
            (''success'', PBool (res_success jr \<and> res_success mr))],
       self\<lparr>world := w2\<rparr>)"
    by (simp add: orchestrate_multi_step_junior_returns [OF assms(1-5)] assms(6))
  have flag: "result_get (orchestrate_analysis lower self q) ''success''
      = Some (PBool (res_success jr \<and> res_success mr))"
    by (simp add: run result_get_def)
  have outp: "result_get (orchestrate_analysis lower self q) ''output''
      = Some (PStr (synthesize_results jr mr q))"
    by (simp add: run result_get_def)
  have js: "sublist (junior_section (res_output jr)) (synthesize_results jr mr q)"
    if "res_success jr"
    unfolding synthesize_results_parts sublist_def using that by auto
  have ms: "sublist (master_section (res_output mr)) (synthesize_results jr mr q)"
    if "res_success mr"
  proof -
    have "synthesize_results jr mr q =
        (synthesis_heading q @ (if res_success jr then junior_section (res_output jr) else []))
        @ master_section (res_output mr) @ synthesis_closing"
      using that by (simp only: synthesize_results_parts if_True append_assoc)
    then show ?thesis
      unfolding sublist_def by blast
  qed
  from flag outp js ms synthesize_results_parts show ?thesis
    by blast
qed

theorem multi_step_success_and_synthesis_witness:
  "result_get (orchestrate_analysis ascii_lower
       (setup_agents (answering_agent ''Junior'' ''not found'' False)
          (answering_agent ''Master'' ''insight'' True) (init_orchestrator [])) ''hello'')
     ''success'' = Some (PBool False) \<and>
   result_get (orchestrate_analysis ascii_lower
       (setup_agents (answering_agent ''Junior'' ''not found'' False)
          (answering_agent ''Master'' ''insight'' True) (init_orchestrator [])) ''hello'')
     ''output''
     = Some (PStr (synthesis_heading ''hello'' @ master_section ''insight'' @ synthesis_closing))"
proof -
  let ?j = "answering_agent ''Junior'' ''not found'' False"
  let ?m = "answering_agent ''Master'' ''insight'' True"
  let ?s = "setup_agents ?j ?m (init_orchestrator [])"
  let ?jr = "\<lparr>res_agent = ''Junior'', res_input = ''hello'', res_output = ''not found'',
             res_success = False\<rparr>"
  let ?mr = "\<lparr>res_agent = ''Master'', res_input = ''hello'', res_output = ''insight'',
             res_success = True\<rparr>"
  have a: "assess_complexity ascii_lower ''hello'' \<noteq> ''simple''" by code_simp
  have b: "assess_complexity ascii_lower ''hello'' \<noteq> ''complex''" by code_simp
  have c: "junior_agent ?s = Some ?j" by (simp add: setup_agents_def)
  have d: "master_agent ?s = Some ?m" by (simp add: setup_agents_def)
  have e: "?j ''hello'' (world ?s) = (Inr ?jr, [(''Junior'', ''hello'')])"
    by (simp add: answering_agent_def setup_agents_def init_orchestrator_def)
  have f: "?m ''hello'' [(''Junior'', ''hello'')]
      = (Inr ?mr, [(''Junior'', ''hello''), (''Master'', ''hello'')])"
    by (simp add: answering_agent_def)
  from multi_step_success_and_synthesis
    [where lower = ascii_lower and j = ?j and m = ?m, OF a b c d e f]
  show ?thesis
    by simp
qed


text \<open>
  C3, as the code has it. \<open>orchestrate_analysis\<close> raises no exception of the class
  \<open>Exception\<close>. When an agent that the query needs is not set up, it returns, without
  calling an agent, the dictionary with the single key \<open>error\<close> and the message
  \<open>Junior agent not initialized\<close> (simple), \<open>Master agent not initialized\<close> (complex) or
  \<open>Agents not initialized\<close> (otherwise); this dictionary has no success flag and no
  output text. When the agents are set up and a call raises an exception \<open>e\<close> of the
  class \<open>Exception\<close>, it returns success \<open>False\<close> and the output
  \<open>Error in orchestration: \<close> followed by \<open>str(e)\<close>; an exception outside that class
  passes to the caller. When the calls return, the result has the success flag and the
  output text of its route.
\<close>

theorem orchestrate_never_raises:
  "(\<forall>x. fst (orchestrate_analysis lower self q) = Inl x \<longrightarrow> \<not> is_exception x) \<and>
   (assess_complexity lower q = ''simple'' \<and> junior_agent self = None \<longrightarrow>
      orchestrate_analysis lower self q
        = (Inr [(''error'', PStr ''Junior agent not initialized'')], self)) \<and>
   (assess_complexity lower q \<noteq> ''simple'' \<and> assess_complexity lower q = ''complex'' \<and>
    master_agent self = None \<longrightarrow>
      orchestrate_analysis lower self q
        = (Inr [(''error'', PStr ''Master agent not initialized'')], self)) \<and>
   (assess_complexity lower q \<noteq> ''simple'' \<and> assess_complexity lower q \<noteq> ''complex'' \<and>
    (junior_agent self = None \<or> master_agent self = None) \<longrightarrow>
      orchestrate_analysis lower self q
        = (Inr [(''error'', PStr ''Agents not initialized'')], self)) \<and>
   (\<not> required_agents_initialized lower self q \<longrightarrow>
      result_get (orchestrate_analysis lower self q) ''success'' = None \<and>
      result_get (orchestrate_analysis lower self q) ''output'' = None) \<and>
   (assess_complexity lower q = ''simple'' \<and> junior_agent self = Some j \<and>
    fst (j q (world self)) = Inl e \<longrightarrow>
      fst (orchestrate_analysis lower self q)
        = (if is_exception e then Inr (error_result self q e) else Inl e)) \<and>
   (assess_complexity lower q \<noteq> ''simple'' \<and> assess_complexity lower q = ''complex'' \<and>
    master_agent self = Some m \<and> fst (m q (world self)) = Inl e \<longrightarrow>
      fst (orchestrate_analysis lower self q)
        = (if is_exception e then Inr (error_result self q e) else Inl e)) \<and>
   (assess_complexity lower q \<noteq> ''simple'' \<and> assess_complexity lower q \<noteq> ''complex'' \<and>
    junior_agent self = Some j \<and> master_agent self = Some m \<and>
    fst (j q (world self)) = Inl e \<longrightarrow>
      fst (orchestrate_analysis lower self q)
        = (if is_exception e then Inr (error_result self q e) else Inl e)) \<and>
   (assess_complexity lower q \<noteq> ''simple'' \<and> assess_complexity lower q \<noteq> ''complex'' \<and>
    junior_agent self = Some j \<and> master_agent self = Some m \<and>
    j q (world self) = (Inr jr, w1) \<and> fst (m q w1) = Inl e \<longrightarrow>
      fst (orchestrate_analysis lower self q)
        = (if is_exception e then Inr (error_result self q e) else Inl e)) \<and>
   (assess_complexity lower q = ''simple'' \<and> junior_agent self = Some j \<and>
    fst (j q (world self)) = Inr jr \<longrightarrow>
      result_get (orchestrate_analysis lower self q) ''success'' = Some (PBool (res_success jr)) \<and>
      result_get (orchestrate_analysis lower self q) ''output''
        = Some (PStr (robot_face @ '' JUNIOR AGENT ANALYSIS:'' @ nl @ nl @ res_output jr))) \<and>
   (assess_complexity lower q \<noteq> ''simple'' \<and> assess_complexity lower q = ''complex'' \<and>
    master_agent self = Some m \<and> fst (m q (world self)) = Inr mr \<longrightarrow>
      result_get (orchestrate_analysis lower self q) ''success'' = Some (PBool (res_success mr)) \<and>
      result_get (orchestrate_analysis lower self q) ''output''
        = Some (PStr (direct_hit @ '' MASTER AGENT ANALYSIS:'' @ nl @ nl @ res_output mr))) \<and>
   (assess_complexity lower q \<noteq> ''simple'' \<and> assess_complexity lower q \<noteq> ''complex'' \<and>
    junior_agent self = Some j \<and> master_agent self = Some m \<and>
    j q (world self) = (Inr jr, w1) \<and> fst (m q w1) = Inr mr \<longrightarrow>
      result_get (orchestrate_analysis lower self q) ''success''
        = Some (PBool (res_success jr \<and> res_success mr)) \<and>
      result_get (orchestrate_analysis lower self q) ''output''
        = Some (PStr (synthesize_results jr mr q)))"
proof -
  have 1: "\<forall>x. fst (orchestrate_analysis lower self q) = Inl x \<longrightarrow> \<not> is_exception x"
    using orchestrate_raises_no_exception by blast
  have 2: "orchestrate_analysis lower self q
        = (Inr [(''error'', PStr ''Junior agent not initialized'')], self)"
    if "assess_complexity lower q = ''simple''" "junior_agent self = None"
    using that by (rule orchestrate_simple_uninitialized)
  have 3: "orchestrate_analysis lower self q
        = (Inr [(''error'', PStr ''Master agent not initialized'')], self)"
    if "assess_complexity lower q \<noteq> ''simple''" "assess_complexity lower q = ''complex''"
      "master_agent self = None"
    using that by (rule orchestrate_complex_uninitialized)
  have 4: "orchestrate_analysis lower self q
        = (Inr [(''error'', PStr ''Agents not initialized'')], self)"
    if "assess_complexity lower q \<noteq> ''simple''" "assess_complexity lower q \<noteq> ''complex''"
      "junior_agent self = None \<or> master_agent self = None"
    using that by (rule orchestrate_multi_step_uninitialized)
  have 5: "result_get (orchestrate_analysis lower self q) ''success'' = None \<and>
      result_get (orchestrate_analysis lower self q) ''output'' = None"
    if u: "\<not> required_agents_initialized lower self q"
  proof -
    consider (s) "assess_complexity lower q = ''simple''" "junior_agent self = None"
      | (c) "assess_complexity lower q \<noteq> ''simple''" "assess_complexity lower q = ''complex''"
          "master_agent self = None"
      | (m) "assess_complexity lower q \<noteq> ''simple''" "assess_complexity lower q \<noteq> ''complex''"
          "junior_agent self = None \<or> master_agent self = None"
      using u by (auto simp: required_agents_initialized_def split: if_splits)
    then show ?thesis
    proof cases
      case s
      then show ?thesis by (simp add: 2 result_get_def)
    next
      case c
      then show ?thesis by (simp add: 3 result_get_def)
    next
      case m
      then show ?thesis by (simp add: 4 result_get_def)
    qed
  qed
  have 6: "fst (orchestrate_analysis lower self q)
        = (if is_exception e then Inr (error_result self q e) else Inl e)"
    if "assess_complexity lower q = ''simple''" "junior_agent self = Some j"
      "fst (j q (world self)) = Inl e"
    using that(3) by (cases "j q (world self)") (simp add: orchestrate_simple [OF that(1,2)])
  have 7: "fst (orchestrate_analysis lower self q)
        = (if is_exception e then Inr (error_result self q e) else Inl e)"
    if "assess_complexity lower q \<noteq> ''simple''" "assess_complexity lower q = ''complex''"
      "master_agent self = Some m" "fst (m q (world self)) = Inl e"
    using that(4) by (cases "m q (world self)") (simp add: orchestrate_complex [OF that(1,2,3)])
  have 8: "fst (orchestrate_analysis lower self q)
        = (if is_exception e then Inr (error_result self q e) else Inl e)"
    if "assess_complexity lower q \<noteq> ''simple''" "assess_complexity lower q \<noteq> ''complex''"
      "junior_agent self = Some j" "master_agent self = Some m"
      "fst (j q (world self)) = Inl e"
  proof -
    from that(5) obtain w where "j q (world self) = (Inl e, w)"
      by (cases "j q (world self)") auto
    from orchestrate_multi_step_junior_raises [OF that(1-4) this] show ?thesis
      by simp
  qed
  have 9: "fst (orchestrate_analysis lower self q)
        = (if is_exception e then Inr (error_result self q e) else Inl e)"
    if "assess_complexity lower q \<noteq> ''simple''" "assess_complexity lower q \<noteq> ''complex''"
      "junior_agent self = Some j" "master_agent self = Some m"
      "j q (world self) = (Inr jr, w1)" "fst (m q w1) = Inl e"
    using that(6)
    by (cases "m q w1") (simp add: orchestrate_multi_step_junior_returns [OF that(1-5)])
  have 10: "result_get (orchestrate_analysis lower self q) ''success''
        = Some (PBool (res_success jr)) \<and>
      result_get (orchestrate_analysis lower self q) ''output''
        = Some (PStr (robot_face @ '' JUNIOR AGENT ANALYSIS:'' @ nl @ nl @ res_output jr))"
    if "assess_complexity lower q = ''simple''" "junior_agent self = Some j"
      "fst (j q (world self)) = Inr jr"
    using that(3)
    by (cases "j q (world self)") (simp add: orchestrate_simple [OF that(1,2)] result_get_def)
  have 11: "result_get (orchestrate_analysis lower self q) ''success''
        = Some (PBool (res_success mr)) \<and>
      result_get (orchestrate_analysis lower self q) ''output''
        = Some (PStr (direct_hit @ '' MASTER AGENT ANALYSIS:'' @ nl @ nl @ res_output mr))"
    if "assess_complexity lower q \<noteq> ''simple''" "assess_complexity lower q = ''complex''"
      "master_agent self = Some m" "fst (m q (world self)) = Inr mr"
    using that(4)
    by (cases "m q (world self)") (simp add: orchestrate_complex [OF that(1,2,3)] result_get_def)
  have 12: "result_get (orchestrate_analysis lower self q) ''success''
        = Some (PBool (res_success jr \<and> res_success mr)) \<and>
      result_get (orchestrate_analysis lower self q) ''output''
        = Some (PStr (synthesize_results jr mr q))"
    if "assess_complexity lower q \<noteq> ''simple''" "assess_complexity lower q \<noteq> ''complex''"
      "junior_agent self = Some j" "master_agent self = Some m"
      "j q (world self) = (Inr jr, w1)" "fst (m q w1) = Inr mr"
    using that(6)
    by (cases "m q w1")
      (simp add: orchestrate_multi_step_junior_returns [OF that(1-5)] result_get_def)
  show ?thesis
    apply (intro conjI)
    subgoal by (rule 1)
    subgoal using 2 by blast
    subgoal using 3 by blast
    subgoal using 4 by blast
    subgoal using 5 by blast
    subgoal using 6 by blast
    subgoal using 7 by blast
    subgoal using 8 by blast
    subgoal using 9 by blast
    subgoal using 10 by blast
    subgoal using 11 by blast
    subgoal using 12 by blast
    done
qed


theorem orchestrate_never_raises_witness:
  "orchestrate_analysis ascii_lower
      (init_orchestrator ([] :: (string \<times> string) list)) ''price''
     = (Inr [(''error'', PStr ''Junior agent not initialized'')], init_orchestrator []) \<and>
   result_get (orchestrate_analysis ascii_lower
      (init_orchestrator ([] :: (string \<times> string) list)) ''price'') ''success''
     = None \<and>
   fst (orchestrate_analysis ascii_lower
      (setup_agents (raising_agent ''Junior'' (Exception ''no network''))
         (answering_agent ''Master'' ''insight'' True) (init_orchestrator [])) ''price'')
     = Inr [(''agent'', PStr ''Orchestrator''), (''input'', PStr ''price''),
            (''output'', PStr ''Error in orchestration: no network''),
            (''success'', PBool False)] \<and>
   fst (orchestrate_analysis ascii_lower
      (setup_agents (raising_agent ''Junior'' CancelledError)
         (answering_agent ''Master'' ''insight'' True) (init_orchestrator [])) ''price'')
     = Inl CancelledError \<and>
   result_get (orchestrate_analysis ascii_lower
      (setup_agents (answering_agent ''Junior'' ''AAPL: 190'' True)
         (answering_agent ''Master'' ''insight'' True) (init_orchestrator [])) ''price'')
     ''success'' = Some (PBool True)"
proof -
  let ?m = "answering_agent ''Master'' ''insight'' True"
  let ?j1 = "raising_agent ''Junior'' (Exception ''no network'')"
  let ?j2 = "raising_agent ''Junior'' CancelledError"
  let ?j3 = "answering_agent ''Junior'' ''AAPL: 190'' True"
  let ?init = "init_orchestrator [] :: (string \<times> string) list orchestrator"
  have s: "assess_complexity ascii_lower ''price'' = ''simple''" by code_simp
  have n: "junior_agent ?init = None"
    by (simp add: init_orchestrator_def)
  then have u: "\<not> required_agents_initialized ascii_lower ?init ''price''"
    by (simp add: required_agents_initialized_def s)
  have j1: "junior_agent (setup_agents ?j1 ?m ?init) = Some ?j1"
    and j2: "junior_agent (setup_agents ?j2 ?m ?init) = Some ?j2"
    and j3: "junior_agent (setup_agents ?j3 ?m ?init) = Some ?j3"
    by (simp_all add: setup_agents_def)
  have r1: "fst (?j1 ''price'' (world (setup_agents ?j1 ?m ?init))) = Inl (Exception ''no network'')"
    and r2: "fst (?j2 ''price'' (world (setup_agents ?j2 ?m ?init))) = Inl CancelledError"
    by (simp_all add: raising_agent_def)
  have r3: "fst (?j3 ''price'' (world (setup_agents ?j3 ?m ?init)))
      = Inr \<lparr>res_agent = ''Junior'', res_input = ''price'', res_output = ''AAPL: 190'',
             res_success = True\<rparr>"
    by (simp add: answering_agent_def)
  from s n u orchestrate_never_raises [where lower = ascii_lower and self = ?init and q = "''price''"]
  have 1: "orchestrate_analysis ascii_lower ?init ''price''
      = (Inr [(''error'', PStr ''Junior agent not initialized'')], ?init) \<and>
    result_get (orchestrate_analysis ascii_lower ?init ''price'') ''success'' = None"
    by blast
  from s j1 r1 orchestrate_never_raises
    [where lower = ascii_lower and self = "setup_agents ?j1 ?m ?init" and q = "''price''"
       and j = ?j1 and e = "Exception ''no network''"]
  have "fst (orchestrate_analysis ascii_lower (setup_agents ?j1 ?m ?init) ''price'')
     = (if is_exception (Exception ''no network'')
        then Inr (error_result (setup_agents ?j1 ?m ?init) ''price'' (Exception ''no network''))
        else Inl (Exception ''no network''))"
    by blast
  then have 2: "fst (orchestrate_analysis ascii_lower (setup_agents ?j1 ?m ?init) ''price'')
     = Inr [(''agent'', PStr ''Orchestrator''), (''input'', PStr ''price''),
            (''output'', PStr ''Error in orchestration: no network''),
            (''success'', PBool False)]"
    by (simp add: error_result_def setup_agents_def init_orchestrator_def)
  from s j2 r2 orchestrate_never_raises
    [where lower = ascii_lower and self = "setup_agents ?j2 ?m ?init" and q = "''price''"
       and j = ?j2 and e = CancelledError]
  have "fst (orchestrate_analysis ascii_lower (setup_agents ?j2 ?m ?init) ''price'')
     = (if is_exception CancelledError
        then Inr (error_result (setup_agents ?j2 ?m ?init) ''price'' CancelledError)
        else Inl CancelledError)"
    by blast
  then have 3: "fst (orchestrate_analysis ascii_lower (setup_agents ?j2 ?m ?init) ''price'')
     = Inl CancelledError"
    by simp
  from s j3 r3 orchestrate_never_raises
    [where lower = ascii_lower and self = "setup_agents ?j3 ?m ?init" and q = "''price''"
       and j = ?j3
       and jr = "\<lparr>res_agent = ''Junior'', res_input = ''price'', res_output = ''AAPL: 190'',
             res_success = True\<rparr>"]
  have 4: "result_get (orchestrate_analysis ascii_lower (setup_agents ?j3 ?m ?init) ''price'')
     ''success'' = Some (PBool True)"
    by simp
  from 1 2 3 4 show ?thesis by blast
qed

text \<open>
  The claim as the spec states it fails: with no agent set up, the call for a simple
  query returns a dictionary that has neither a success flag nor an output text.
\<close>

theorem orchestrate_uninitialized_counterexample:
  "fst (orchestrate_analysis ascii_lower
      (init_orchestrator ([] :: (string \<times> string) list)) ''price'')
     = Inr [(''error'', PStr ''Junior agent not initialized'')] \<and>
   result_get (orchestrate_analysis ascii_lower
      (init_orchestrator ([] :: (string \<times> string) list)) ''price'') ''success''
     = None \<and>
   result_get (orchestrate_analysis ascii_lower
      (init_orchestrator ([] :: (string \<times> string) list)) ''price'') ''output''
     = None"
proof -
  have s: "assess_complexity ascii_lower ''price'' = ''simple''" by code_simp
  show ?thesis
    by (simp add: orchestrate_analysis_def orchestrate_body_def s handle_simple_query_def
        init_orchestrator_def result_get_def)
qed

text \<open>
  C5. The coordinator routes by the label of the classifier, given that the agents are
  set up. For a simple query the world after the call is the world that the Junior
  agent leaves when it is applied to the query: no other agent is applied, and the
  output is the Junior header followed by the Junior agent's text. For a complex query
  the same holds with the Master agent alone. For any other label the Junior agent is
  applied to the query first and, once it has returned, the Master agent is applied to
  the same query in the world that the Junior agent left: the Master's request does not
  contain the Junior's result, and the output is synthesized from both results.
\<close>

theorem orchestrate_routing:
  "(assess_complexity lower q = ''simple'' \<and> junior_agent self = Some j \<longrightarrow>
      world (snd (orchestrate_analysis lower self q)) = snd (j q (world self)) \<and>
      (\<forall>jr. fst (j q (world self)) = Inr jr \<longrightarrow>
         result_get (orchestrate_analysis lower self q) ''output''
           = Some (PStr (robot_face @ '' JUNIOR AGENT ANALYSIS:'' @ nl @ nl @ res_output jr)))) \<and>
   (assess_complexity lower q \<noteq> ''simple'' \<and> assess_complexity lower q = ''complex'' \<and>
    master_agent self = Some m \<longrightarrow>
      world (snd (orchestrate_analysis lower self q)) = snd (m q (world self)) \<and>
      (\<forall>mr. fst (m q (world self)) = Inr mr \<longrightarrow>
         result_get (orchestrate_analysis lower self q) ''output''
           = Some (PStr (direct_hit @ '' MASTER AGENT ANALYSIS:'' @ nl @ nl @ res_output mr)))) \<and>
   (assess_complexity lower q \<noteq> ''simple'' \<and> assess_complexity lower q \<noteq> ''complex'' \<and>
    junior_agent self = Some j \<and> master_agent self = Some m \<and>
    j q (world self) = (Inr r, wj) \<longrightarrow>
      world (snd (orchestrate_analysis lower self q)) = snd (m q wj) \<and>
      (\<forall>mr. fst (m q wj) = Inr mr \<longrightarrow>
         result_get (orchestrate_analysis lower self q) ''output''
           = Some (PStr (synthesize_results r mr q))))"
proof -
  have s: "world (snd (orchestrate_analysis lower self q)) = snd (j q (world self)) \<and>
      (\<forall>jr. fst (j q (world self)) = Inr jr \<longrightarrow>
         result_get (orchestrate_analysis lower self q) ''output''
           = Some (PStr (robot_face @ '' JUNIOR AGENT ANALYSIS:'' @ nl @ nl @ res_output jr)))"
    if "assess_complexity lower q = ''simple''" "junior_agent self = Some j"
    by (cases "j q (world self)")
      (auto simp add: orchestrate_simple [OF that] result_get_def split: sum.splits)
  have c: "world (snd (orchestrate_analysis lower self q)) = snd (m q (world self)) \<and>
      (\<forall>mr. fst (m q (world self)) = Inr mr \<longrightarrow>
         result_get (orchestrate_analysis lower self q) ''output''
           = Some (PStr (direct_hit @ '' MASTER AGENT ANALYSIS:'' @ nl @ nl @ res_output mr)))"
    if "assess_complexity lower q \<noteq> ''simple''" "assess_complexity lower q = ''complex''"
      "master_agent self = Some m"
    by (cases "m q (world self)")
      (auto simp add: orchestrate_complex [OF that] result_get_def split: sum.splits)
  have t: "world (snd (orchestrate_analysis lower self q)) = snd (m q wj) \<and>
      (\<forall>mr. fst (m q wj) = Inr mr \<longrightarrow>
         result_get (orchestrate_analysis lower self q) ''output''
           = Some (PStr (synthesize_results r mr q)))"
    if "assess_complexity lower q \<noteq> ''simple''" "assess_complexity lower q \<noteq> ''complex''"
      "junior_agent self = Some j" "master_agent self = Some m"
      "j q (world self) = (Inr r, wj)"
    by (cases "m q wj")
      (auto simp add: orchestrate_multi_step_junior_returns [OF that] result_get_def
        split: sum.splits)
  show ?thesis
    apply (intro conjI)
    subgoal using s by blast
    subgoal using c by blast
    subgoal using t by blast
    done
qed

theorem orchestrate_routing_witness:
  "world (snd (orchestrate_analysis ascii_lower
      (setup_agents (answering_agent ''Junior'' ''AAPL: 190'' True)
         (answering_agent ''Master'' ''insight'' True) (init_orchestrator [])) ''price''))
     = [(''Junior'', ''price'')] \<and>
   world (snd (orchestrate_analysis ascii_lower
      (setup_agents (answering_agent ''Junior'' ''AAPL: 190'' True)
         (answering_agent ''Master'' ''insight'' True) (init_orchestrator [])) ''analysis''))
     = [(''Master'', ''analysis'')] \<and>
   world (snd (orchestrate_analysis ascii_lower
      (setup_agents (answering_agent ''Junior'' ''AAPL: 190'' True)
         (answering_agent ''Master'' ''insight'' True) (init_orchestrator [])) ''hello''))
     = [(''Junior'', ''hello''), (''Master'', ''hello'')]"
proof -
  let ?j = "answering_agent ''Junior'' ''AAPL: 190'' True"
  let ?m = "answering_agent ''Master'' ''insight'' True"
  let ?s = "setup_agents ?j ?m (init_orchestrator [])"
  have l1: "assess_complexity ascii_lower ''price'' = ''simple''" by code_simp
  have l2: "assess_complexity ascii_lower ''analysis'' \<noteq> ''simple'' \<and>
      assess_complexity ascii_lower ''analysis'' = ''complex''" by code_simp
  have l3: "assess_complexity ascii_lower ''hello'' \<noteq> ''simple'' \<and>
      assess_complexity ascii_lower ''hello'' \<noteq> ''complex''"
    by code_simp
  have j: "junior_agent ?s = Some ?j" and m: "master_agent ?s = Some ?m"
    and i: "world ?s = []"
    by (simp_all add: setup_agents_def init_orchestrator_def)
  have r: "?j ''hello'' (world ?s) = (Inr \<lparr>res_agent = ''Junior'', res_input = ''hello'',
      res_output = ''AAPL: 190'', res_success = True\<rparr>, [(''Junior'', ''hello'')])"
    unfolding i by (simp add: answering_agent_def)
  from l1 j orchestrate_routing [where lower = ascii_lower and q = "''price''" and self = ?s
      and j = ?j and m = ?m]
  have "world (snd (orchestrate_analysis ascii_lower ?s ''price'')) = snd (?j ''price'' (world ?s))"
    by blast
  then have 1: "world (snd (orchestrate_analysis ascii_lower ?s ''price'')) = [(''Junior'', ''price'')]"
    unfolding i by (simp add: answering_agent_def)
  from l2 m orchestrate_routing [where lower = ascii_lower and q = "''analysis''" and self = ?s
      and j = ?j and m = ?m]
  have "world (snd (orchestrate_analysis ascii_lower ?s ''analysis''))
      = snd (?m ''analysis'' (world ?s))"
    by blast
  then have 2: "world (snd (orchestrate_analysis ascii_lower ?s ''analysis''))
      = [(''Master'', ''analysis'')]"
    unfolding i by (simp add: answering_agent_def)
  from l3 j m r orchestrate_routing [where lower = ascii_lower and q = "''hello''" and self = ?s
      and j = ?j and m = ?m and wj = "[(''Junior'', ''hello'')]"]
  have "world (snd (orchestrate_analysis ascii_lower ?s ''hello''))
      = snd (?m ''hello'' [(''Junior'', ''hello'')])"
    by blast
  then have 3: "world (snd (orchestrate_analysis ascii_lower ?s ''hello''))
      = [(''Junior'', ''hello''), (''Master'', ''hello'')]"
    by (simp add: answering_agent_def)
  from 1 2 3 show ?thesis by blast
qed

text \<open>
  C6, as the code has it. \<open>orchestrate_analysis\<close> leaves the workflow history as it was:
  nothing in the coordinator appends to it. \<open>clear_workflow_history\<close> sets it to the empty
  list, so its length is 0 after a clear and after a second clear.
\<close>

theorem workflow_history_frame:
  "get_workflow_history (snd (orchestrate_analysis lower self q)) = get_workflow_history self \<and>
   get_workflow_history (init_orchestrator w) = [] \<and>
   get_workflow_history (setup_agents j m self) = get_workflow_history self \<and>
   length (get_workflow_history (clear_workflow_history self)) = 0 \<and>
   length (get_workflow_history (clear_workflow_history (clear_workflow_history self))) = 0"
  by (simp add: get_workflow_history_def orchestrate_history clear_workflow_history_def
      init_orchestrator_def setup_agents_def)

theorem workflow_history_frame_witness:
  "get_workflow_history (snd (orchestrate_analysis ascii_lower
      (setup_agents (answering_agent ''Junior'' ''AAPL: 190'' True)
         (answering_agent ''Master'' ''insight'' True) (init_orchestrator [])) ''price'')) = []"
proof -
  let ?j = "answering_agent ''Junior'' ''AAPL: 190'' True"
  let ?m = "answering_agent ''Master'' ''insight'' True"
  from workflow_history_frame
      [where lower = ascii_lower and self = "setup_agents ?j ?m (init_orchestrator [])"
         and q = "''price''" and j = ?j and m = ?m and w = "[] :: (string \<times> string) list"]
    workflow_history_frame
      [where lower = ascii_lower and self = "init_orchestrator []"
         and q = "''price''" and j = ?j and m = ?m and w = "[] :: (string \<times> string) list"]
  show ?thesis by simp
qed

text \<open>
  The claim as the spec states it fails: a successful orchestration of a simple query
  on a coordinator with an empty history leaves the history empty; no entry is added.
\<close>

theorem workflow_history_counterexample:
  "result_get (orchestrate_analysis ascii_lower
      (setup_agents (answering_agent ''Junior'' ''AAPL: 190'' True)
         (answering_agent ''Master'' ''insight'' True) (init_orchestrator [])) ''price'')
     ''success'' = Some (PBool True) \<and>
   length (get_workflow_history (snd (orchestrate_analysis ascii_lower
      (setup_agents (answering_agent ''Junior'' ''AAPL: 190'' True)
         (answering_agent ''Master'' ''insight'' True) (init_orchestrator [])) ''price'')))
   \<noteq> length (get_workflow_history
      (setup_agents (answering_agent ''Junior'' ''AAPL: 190'' True)
         (answering_agent ''Master'' ''insight'' True) (init_orchestrator []))) + 1"
proof -
  have s: "assess_complexity ascii_lower ''price'' = ''simple''" by code_simp
  show ?thesis
    by (simp add: orchestrate_analysis_def orchestrate_body_def s handle_simple_query_def
        run_agent_def init_orchestrator_def setup_agents_def result_get_def
        get_workflow_history_def answering_agent_def)
qed


section \<open>Properties of the stock tools\<close>





lemma wf_df_column:
  assumes "wf_df df" and "map_of df c = Some xs"
  shows "length xs = df_len df"
proof -
  from assms(2) have "(c, xs) \<in> set df" by (rule map_of_SomeD)
  with assms(1) show ?thesis
    by (auto simp: wf_df_def list_all_iff)
qed

lemma present_numeric: "present (map Some xs) = xs"
  by (induction xs) auto

lemma col_min_numeric: "xs \<noteq> [] \<Longrightarrow> col_min (map Some xs) = Fin (Min (set xs))"
proof (cases xs)
  case Nil
  assume "xs \<noteq> []"
  with Nil show ?thesis by simp
next
  case (Cons a as)
  have "fold min as a = Min (set (a # as))"
    by (rule Min.set_eq_fold [symmetric])
  with Cons show ?thesis
    by (simp only: col_min_def present_numeric list.case)
qed

lemma col_max_numeric: "xs \<noteq> [] \<Longrightarrow> col_max (map Some xs) = Fin (Max (set xs))"
proof (cases xs)
  case Nil
  assume "xs \<noteq> []"
  with Nil show ?thesis by simp
next
  case (Cons a as)
  have "fold max as a = Max (set (a # as))"
    by (rule Max.set_eq_fold [symmetric])
  with Cons show ?thesis
    by (simp only: col_max_def present_numeric list.case)
qed

lemma tail_map: "tail n (map f xs) = map f (tail n xs)"
  by (simp add: tail_def drop_map)

lemma tail_nonempty: "xs \<noteq> [] \<Longrightarrow> tail (Suc n) xs \<noteq> []"
  by (cases xs) (auto simp: tail_def)

lemma set_tail_nth: "set (tail n xs) = (!) xs ` {length xs - n..<length xs}"
proof -
  have "set (drop k xs) = (!) xs ` {k..<length xs}" for k
  proof (rule set_eqI)
    fix x
    show "x \<in> set (drop k xs) \<longleftrightarrow> x \<in> (!) xs ` {k..<length xs}"
    proof
      assume "x \<in> set (drop k xs)"
      then obtain i where i: "i < length (drop k xs)" and x: "x = drop k xs ! i"
        by (auto simp: in_set_conv_nth)
      from i have "k + i < length xs" by simp
      moreover from x i have "x = xs ! (k + i)" by simp
      ultimately show "x \<in> (!) xs ` {k..<length xs}" by auto
    next
      assume "x \<in> (!) xs ` {k..<length xs}"
      then obtain i where i: "k \<le> i" "i < length xs" and x: "x = xs ! i"
        by auto
      then have "i - k < length (drop k xs)" and "drop k xs ! (i - k) = x"
        by simp_all
      then show "x \<in> set (drop k xs)"
        by (auto simp: in_set_conv_nth)
    qed
  qed
  then show ?thesis
    by (simp add: tail_def)
qed

lemma length_rolling_mean: "length (rolling_mean mean_at w xs) = length xs"
  by (simp add: rolling_mean_def)

lemma stock_analysis_report:
  assumes "history (upper symbol) ''3mo'' = Inr hist" and "\<not> df_empty hist" and "wf_df hist"
    and "map_of hist ''Close'' = Some close" and "map_of hist ''Low'' = Some low"
    and "map_of hist ''High'' = Some high"
  shows "stock_analysis_run upper mean_at history symbol =
     Inr (Report (''Technical Analysis for '' @ upper symbol @ '':'')
            [(''Current Price'', Money (of_cell (last close))),
             (''20-day MA'', Money (last (rolling_mean mean_at 20 close))),
             (''50-day MA'', Money (last (rolling_mean mean_at 50 close))),
             (''Trend'', Plain (trend (of_cell (last close)) (last (rolling_mean mean_at 20 close))
                                  (last (rolling_mean mean_at 50 close)))),
             (''Volatility (3-month)'', Percent (volatility_of close)),
             (''Recent Support'', Money (support_of low)),
             (''Recent Resistance'', Money (resistance_of high))])"
proof -
  have "length close = df_len hist"
    using assms(3,4) by (rule wf_df_column)
  with assms(2) have ne: "close \<noteq> []"
    by (auto simp: df_empty_def)
  then have ne20: "rolling_mean mean_at 20 close \<noteq> []"
    and ne50: "rolling_mean mean_at 50 close \<noteq> []"
    using length_rolling_mean [of mean_at 20 close] length_rolling_mean [of mean_at 50 close]
    by auto
  show ?thesis
    unfolding stock_analysis_run_def stock_analysis_try_def
    by (simp add: assms(1,2,4,5,6) then_do_def getcol_def iloc_last_def ne ne20 ne50 Let_def)
qed

text \<open>
  C8. In the report of the analysis tool, the support is the least low and the
  resistance the greatest high among the last 20 rows, the rows with index from
  \<open>n - 20\<close> up to \<open>n - 1\<close> of the \<open>n\<close> rows; with at most 20 rows these are all rows.
  When every row has its low at or below its high, the support is at or below the
  resistance.
\<close>

theorem support_le_resistance:
  assumes "history (upper symbol) ''3mo'' = Inr hist" and "\<not> df_empty hist" and "wf_df hist"
    and "map_of hist ''Close'' = Some close" and "map_of hist ''Low'' = Some (map Some low)"
    and "map_of hist ''High'' = Some (map Some high)"
    and "list_all2 (\<le>) low high"
  shows "report_field (stock_analysis_run upper mean_at history symbol) ''Recent Support''
           = Some (Money (Fin (Min ((!) low ` {length low - 20..<length low})))) \<and>
         report_field (stock_analysis_run upper mean_at history symbol) ''Recent Resistance''
           = Some (Money (Fin (Max ((!) high ` {length high - 20..<length high})))) \<and>
         (length low \<le> 20 \<longrightarrow>
            (!) low ` {length low - 20..<length low} = set low \<and>
            (!) high ` {length high - 20..<length high} = set high) \<and>
         Min ((!) low ` {length low - 20..<length low})
           \<le> Max ((!) high ` {length high - 20..<length high})"
proof -
  have "length (map Some low) = df_len hist"
    using assms(3,5) by (rule wf_df_column)
  with assms(2) have lne: "low \<noteq> []"
    by (auto simp: df_empty_def)
  from assms(7) have len: "length low = length high"
    by (rule list_all2_lengthD)
  with lne have hne: "high \<noteq> []" by auto
  have tl: "tail 20 low \<noteq> []" and th: "tail 20 high \<noteq> []"
    using tail_nonempty [OF lne, of 19] tail_nonempty [OF hne, of 19] by simp_all
  have sup: "support_of (map Some low) = Fin (Min ((!) low ` {length low - 20..<length low}))"
    using col_min_numeric [OF tl] by (simp add: support_of_def tail_map set_tail_nth)
  have res: "resistance_of (map Some high)
      = Fin (Max ((!) high ` {length high - 20..<length high}))"
    using col_max_numeric [OF th] by (simp add: resistance_of_def tail_map set_tail_nth)
  note rep = stock_analysis_report [of history upper symbol, OF assms(1-6)]
  have 1: "report_field (stock_analysis_run upper mean_at history symbol) ''Recent Support''
      = Some (Money (Fin (Min ((!) low ` {length low - 20..<length low}))))"
    by (simp add: rep sup)
  have 2: "report_field (stock_analysis_run upper mean_at history symbol) ''Recent Resistance''
      = Some (Money (Fin (Max ((!) high ` {length high - 20..<length high}))))"
    by (simp add: rep res)
  have 3: "(!) low ` {length low - 20..<length low} = set low \<and>
      (!) high ` {length high - 20..<length high} = set high"
    if "length low \<le> 20"
    using that len set_tail_nth [of 20 low] set_tail_nth [of 20 high] by (simp add: tail_def)
  have lastl: "length low - 1 \<in> {length low - 20..<length low}"
    using lne by auto
  have lasth: "length high - 1 \<in> {length high - 20..<length high}"
    using hne by auto
  have "low ! (length low - 1) \<le> high ! (length low - 1)"
  proof -
    have "length low - 1 < length low" using lne by simp
    with assms(7) show ?thesis
      by (rule list_all2_nthD)
  qed
  moreover have "Min ((!) low ` {length low - 20..<length low}) \<le> low ! (length low - 1)"
    using lastl by (intro Min_le) auto
  moreover have "high ! (length high - 1) \<le> Max ((!) high ` {length high - 20..<length high})"
    using lasth by (intro Max_ge) auto
  ultimately have 4: "Min ((!) low ` {length low - 20..<length low})
      \<le> Max ((!) high ` {length high - 20..<length high})"
    using len by simp
  from 1 2 3 4 show ?thesis by blast
qed

theorem support_le_resistance_witness:
  "report_field (stock_analysis_run ascii_upper exact_mean long_history ''aapl'') ''Recent Support''
     = Some (Money (Fin 9)) \<and>
   report_field (stock_analysis_run ascii_upper exact_mean long_history ''aapl'')
     ''Recent Resistance'' = Some (Money (Fin 12)) \<and>
   report_field (stock_analysis_run ascii_upper exact_mean four_day_history ''aapl'')
     ''Recent Support'' = Some (Money (Fin 47)) \<and>
   report_field (stock_analysis_run ascii_upper exact_mean four_day_history ''aapl'')
     ''Recent Resistance'' = Some (Money (Fin 53))"
proof -
  let ?low = "1 # 2 # replicate 19 10 @ [9] :: real list"
  let ?high = "100 # 90 # replicate 19 12 @ [11] :: real list"
  let ?hist = "[(''Open'', map Some (replicate 22 10)), (''High'', map Some ?high),
      (''Low'', map Some ?low), (''Close'', map Some (replicate 22 10)),
      (''Volume'', map Some (replicate 22 5000))] :: dataframe"
  have a: "long_history (ascii_upper ''aapl'') ''3mo'' = Inr ?hist"
    by (simp add: long_history_def)
  have b: "\<not> df_empty ?hist" by (simp add: df_empty_def)
  have c: "wf_df ?hist" by (simp add: wf_df_def)
  have d: "map_of ?hist ''Close'' = Some (map Some (replicate 22 10))" by simp
  have e: "map_of ?hist ''Low'' = Some (map Some ?low)" by simp
  have f: "map_of ?hist ''High'' = Some (map Some ?high)" by simp
  have "list_all2 (\<le>) (replicate 19 (10 :: real)) (replicate 19 12)"
    by (simp add: list_all2_conv_all_nth)
  then have g: "list_all2 (\<le>) ?low ?high"
    by (simp add: list_all2_append)
  have m: "Min ((!) ?low ` {length ?low - 20..<length ?low}) = 9"
    unfolding set_tail_nth [symmetric] by (simp add: tail_def)
  have n: "Max ((!) ?high ` {length ?high - 20..<length ?high}) = 12"
    unfolding set_tail_nth [symmetric] by (simp add: tail_def)
  from support_le_resistance
    [where history = long_history and upper = ascii_upper and symbol = "''aapl''"
       and mean_at = exact_mean, OF a b c d e f g] m n
  have 1: "report_field (stock_analysis_run ascii_upper exact_mean long_history ''aapl'')
      ''Recent Support'' = Some (Money (Fin 9)) \<and>
    report_field (stock_analysis_run ascii_upper exact_mean long_history ''aapl'')
      ''Recent Resistance'' = Some (Money (Fin 12))"
    by simp
  let ?low4 = "[49, 48, 49, 47] :: real list"
  let ?high4 = "[52, 51, 53, 51] :: real list"
  let ?hist4 = "[(''Open'', map Some [50, 50, 50, 50]), (''High'', map Some ?high4),
      (''Low'', map Some ?low4), (''Close'', map Some [50, 50, 50, 50]),
      (''Volume'', map Some [5000, 7000, 6000, 4000])] :: dataframe"
  have a4: "four_day_history (ascii_upper ''aapl'') ''3mo'' = Inr ?hist4"
    by (simp add: four_day_history_def)
  have b4: "\<not> df_empty ?hist4" by (simp add: df_empty_def)
  have c4: "wf_df ?hist4" by (simp add: wf_df_def)
  have d4: "map_of ?hist4 ''Close'' = Some (map Some [50, 50, 50, 50])" by simp
  have e4: "map_of ?hist4 ''Low'' = Some (map Some ?low4)" by simp
  have f4: "map_of ?hist4 ''High'' = Some (map Some ?high4)" by simp
  have g4: "list_all2 (\<le>) ?low4 ?high4" by simp
  have m4: "Min ((!) ?low4 ` {length ?low4 - 20..<length ?low4}) = 47"
    unfolding set_tail_nth [symmetric] by (simp add: tail_def)
  have n4: "Max ((!) ?high4 ` {length ?high4 - 20..<length ?high4}) = 53"
    unfolding set_tail_nth [symmetric] by (simp add: tail_def)
  from support_le_resistance
    [where history = four_day_history and upper = ascii_upper and symbol = "''aapl''"
       and mean_at = exact_mean, OF a4 b4 c4 d4 e4 f4 g4] m4 n4
  have 2: "report_field (stock_analysis_run ascii_upper exact_mean four_day_history ''aapl'')
      ''Recent Support'' = Some (Money (Fin 47)) \<and>
    report_field (stock_analysis_run ascii_upper exact_mean four_day_history ''aapl'')
      ''Recent Resistance'' = Some (Money (Fin 53))"
    by simp
  from 1 2 show ?thesis by blast
qed



lemma stock_analysis_labels:
  "report_labels (stock_analysis_run upper mean_at history symbol) = [] \<or>
   report_labels (stock_analysis_run upper mean_at history symbol) =
     [''Current Price'', ''20-day MA'', ''50-day MA'', ''Trend'', ''Volatility (3-month)'',
      ''Recent Support'', ''Recent Resistance'']"
  by (simp add: stock_analysis_run_def stock_analysis_try_def then_do_def Let_def
      split: sum.splits)





lemma stock_history_report:
  assumes "history (upper symbol) period = Inr hist" and "\<not> df_empty hist" and "wf_df hist"
    and "map_of hist ''Close'' = Some close" and "map_of hist ''Volume'' = Some volume"
    and "map_of hist ''High'' = Some high" and "map_of hist ''Low'' = Some low"
  shows "stock_history_run upper history symbol period =
     Inr (Report (''Historical data for '' @ upper symbol @ '' ('' @ period @ ''):'')
            [(''Latest Close'', Money (of_cell (last close))),
             (''Latest Volume'', Grouped (of_cell (last volume))),
             (''Period High'', Money (col_max high)),
             (''Period Low'', Money (col_min low)),
             (''Price Change'', Money (of_cell (c_sub (last close) (hd close)))),
             (''Percent Change'',
                Percent (f_map (\<lambda>v. v * 100)
                  (c_div (c_sub (last close) (hd close)) (hd close))))])"
proof -
  have "length close = df_len hist" and "length volume = df_len hist"
    using assms(3,4,5) by (auto intro: wf_df_column)
  with assms(2) have ne: "close \<noteq> []" "volume \<noteq> []"
    by (auto simp: df_empty_def)
  from ne(1) have first: "iloc_first close = Inr (hd close)"
    by (cases close) (simp_all add: iloc_first_def)
  show ?thesis
    unfolding stock_history_run_def stock_history_try_def
    by (simp add: assms(1,2,4,5,6,7) then_do_def getcol_def iloc_last_def ne first)
qed

text \<open>
  C10, as the code has it. The price change is reported by the history tool, not by the
  analysis tool. The last two lines of the history report are the price change, the last
  close minus the first close of the requested period, and the percent change, that
  difference divided by the first close and multiplied by 100. The report of the
  analysis tool has no such lines and ends with the resistance.
\<close>

theorem price_change_in_history_report:
  assumes "history (upper symbol) period = Inr hist" and "\<not> df_empty hist" and "wf_df hist"
    and "map_of hist ''Close'' = Some (map Some close)"
    and "map_of hist ''Volume'' = Some volume"
    and "map_of hist ''High'' = Some high" and "map_of hist ''Low'' = Some low"
  shows "report_labels (stock_history_run upper history symbol period) =
           [''Latest Close'', ''Latest Volume'', ''Period High'', ''Period Low'',
            ''Price Change'', ''Percent Change''] \<and>
         report_field (stock_history_run upper history symbol period) ''Price Change''
           = Some (Money (Fin (last close - hd close))) \<and>
         report_field (stock_history_run upper history symbol period) ''Percent Change''
           = Some (Percent (f_map (\<lambda>v. v * 100) (f_div (last close - hd close) (hd close)))) \<and>
         (hd close \<noteq> 0 \<longrightarrow>
            report_field (stock_history_run upper history symbol period) ''Percent Change''
              = Some (Percent (Fin ((last close - hd close) / hd close * 100)))) \<and>
         ''Price Change''
           \<notin> set (report_labels (stock_analysis_run upper' mean_at history' symbol')) \<and>
         ''Percent Change''
           \<notin> set (report_labels (stock_analysis_run upper' mean_at history' symbol'))"
proof -
  have "length (map Some close) = df_len hist"
    using assms(3,4) by (rule wf_df_column)
  with assms(2) have ne: "close \<noteq> []"
    by (auto simp: df_empty_def)
  then have ends: "last (map Some close) = Some (last close)" "hd (map Some close) = Some (hd close)"
    by (simp_all add: last_map hd_map)
  note rep = stock_history_report [of history upper symbol, OF assms]
  have 1: "report_labels (stock_history_run upper history symbol period) =
           [''Latest Close'', ''Latest Volume'', ''Period High'', ''Period Low'',
            ''Price Change'', ''Percent Change'']"
    by (simp add: rep)
  have 2: "report_field (stock_history_run upper history symbol period) ''Price Change''
           = Some (Money (Fin (last close - hd close)))"
    by (simp add: rep ends)
  have 3: "report_field (stock_history_run upper history symbol period) ''Percent Change''
           = Some (Percent (f_map (\<lambda>v. v * 100) (f_div (last close - hd close) (hd close))))"
    by (simp add: rep ends)
  have 4: "report_field (stock_history_run upper history symbol period) ''Percent Change''
              = Some (Percent (Fin ((last close - hd close) / hd close * 100)))"
    if "hd close \<noteq> 0"
    using that by (simp add: 3 f_div_def)
  have 5: "''Price Change''
        \<notin> set (report_labels (stock_analysis_run upper' mean_at history' symbol')) \<and>
      ''Percent Change''
        \<notin> set (report_labels (stock_analysis_run upper' mean_at history' symbol'))"
    using stock_analysis_labels [of upper' mean_at history' symbol'] by auto
  from 1 2 3 4 5 show ?thesis by blast
qed

theorem price_change_in_history_report_witness:
  "report_field (stock_history_run ascii_upper three_day_history ''aapl'' ''1mo'') ''Price Change''
     = Some (Money (Fin 20)) \<and>
   report_field (stock_history_run ascii_upper three_day_history ''aapl'' ''1mo'')
     ''Percent Change'' = Some (Percent (Fin 20))"
proof -
  let ?hist = "[(''Open'', map Some [100, 108, 112]), (''High'', map Some [104, 111, 121]),
          (''Low'', map Some [99, 107, 111]), (''Close'', map Some [100, 110, 120]),
          (''Volume'', map Some [5000, 7000, 6000])] :: dataframe"
  have a: "three_day_history (ascii_upper ''aapl'') ''1mo'' = Inr ?hist"
    by (simp add: three_day_history_def)
  have b: "\<not> df_empty ?hist" by (simp add: df_empty_def)
  have c: "wf_df ?hist" by (simp add: wf_df_def)
  have d: "map_of ?hist ''Close'' = Some (map Some [100, 110, 120])" by simp
  have e: "map_of ?hist ''Volume'' = Some (map Some [5000, 7000, 6000])" by simp
  have f: "map_of ?hist ''High'' = Some (map Some [104, 111, 121])" by simp
  have g: "map_of ?hist ''Low'' = Some (map Some [99, 107, 111])" by simp
  have h: "hd [100, 110, 120 :: real] \<noteq> 0" by simp
  from h price_change_in_history_report
    [where history = three_day_history and upper = ascii_upper and symbol = "''aapl''"
       and history' = three_day_history and upper' = ascii_upper and symbol' = "''aapl''"
       and mean_at = exact_mean, OF a b c d e f g]
  show ?thesis by (simp add: f_div_def)
qed

text \<open>
  The claim as the spec states it fails: the report of the analysis tool for a listing
  of four trading days ends with the resistance, and has no price change and no percent
  change.
\<close>

theorem analysis_price_change_counterexample:
  "report_labels (stock_analysis_run ascii_upper exact_mean four_day_history ''aapl'') =
     [''Current Price'', ''20-day MA'', ''50-day MA'', ''Trend'', ''Volatility (3-month)'',
      ''Recent Support'', ''Recent Resistance''] \<and>
   report_field (stock_analysis_run ascii_upper exact_mean four_day_history ''aapl'')
     ''Price Change'' = None \<and>
   report_field (stock_analysis_run ascii_upper exact_mean four_day_history ''aapl'')
     ''Percent Change'' = None"
proof -
  let ?hist = "[(''Open'', map Some [50, 50, 50, 50]), (''High'', map Some [52, 51, 53, 51]),
      (''Low'', map Some [49, 48, 49, 47]), (''Close'', map Some [50, 50, 50, 50]),
      (''Volume'', map Some [5000, 7000, 6000, 4000])] :: dataframe"
  have a: "four_day_history (ascii_upper ''aapl'') ''3mo'' = Inr ?hist"
    by (simp add: four_day_history_def)
  have b: "\<not> df_empty ?hist" by (simp add: df_empty_def)
  have c: "wf_df ?hist" by (simp add: wf_df_def)
  have d: "map_of ?hist ''Close'' = Some (map Some [50, 50, 50, 50])" by simp
  have e: "map_of ?hist ''Low'' = Some (map Some [49, 48, 49, 47])" by simp
  have f: "map_of ?hist ''High'' = Some (map Some [52, 51, 53, 51])" by simp
  show ?thesis
    by (simp add: stock_analysis_report
        [of four_day_history ascii_upper "''aapl''", OF a b c d e f])
qed

lemma ffill_from_numeric: "ffill_from p (map Some xs) = map Some xs"
  by (induction xs arbitrary: p) auto

lemma length_ffill_from: "length (ffill_from p col) = length col"
  by (induction p col rule: ffill_from.induct) auto

lemma changes_finite:
  "x \<noteq> 0 \<Longrightarrow> 0 \<notin> set xs \<Longrightarrow>
   changes (Some x) (map Some xs) = map Fin (period_changes (x # xs))"
  by (induction xs arbitrary: x) (auto simp: period_changes_def f_div_def)

lemma pct_change_finite:
  assumes "close \<noteq> []" and "0 \<notin> set close"
  shows "pct_change (map Some close) = NaN # map Fin (period_changes close)"
  using assms
  by (cases close) (simp_all add: pct_change_def ffill_def ffill_from_numeric changes_finite)

lemma length_period_changes: "length (period_changes close) = length close - 1"
  by (simp add: period_changes_def)

lemma length_changes: "length (changes x xs) = length xs"
  by (induction xs arbitrary: x) auto

lemma finite_values_Fin: "finite_values (map Fin rs) = Some rs"
  by (induction rs) auto

lemma filter_not_NaN_Fin: "filter (\<lambda>x. x \<noteq> NaN) (map Fin rs) = map Fin rs"
  by (induction rs) auto

lemma std_finite:
  assumes "2 \<le> length rs"
  shows "std (NaN # map Fin rs) = Fin (sample_std rs)"
proof -
  have sq: "(\<Sum>v\<leftarrow>rs. (sum_list rs / real (length rs) - v)\<^sup>2)
      = (\<Sum>r\<leftarrow>rs. (r - sum_list rs / real (length rs))\<^sup>2)"
    by (simp add: power2_commute)
  have den: "real (length rs - 1) = real (length rs) - 1"
    using assms by (simp add: of_nat_diff)
  show ?thesis
    using assms
    by (simp add: std_def filter_not_NaN_Fin finite_values_Fin Let_def sample_std_def sq den)
qed

lemma std_short:
  assumes "length xs \<le> 2" and "hd xs = NaN" and "xs \<noteq> []"
  shows "std xs = NaN"
proof -
  from assms obtain ys where xs: "xs = NaN # ys" and ys: "length ys \<le> 1"
    by (cases xs) auto
  have "length (filter (\<lambda>x. x \<noteq> NaN) xs) = length (filter (\<lambda>x. x \<noteq> NaN) ys)"
    using xs by simp
  also have "\<dots> \<le> length ys"
    by (rule length_filter_le)
  also have "\<dots> \<le> 1"
    by (rule ys)
  finally have "length (filter (\<lambda>x. x \<noteq> NaN) xs) \<le> 1" .
  then show ?thesis
    by (simp add: std_def Let_def)
qed

lemma volatility_short:
  assumes "length col \<le> 2"
  shows "volatility_of col = NaN"
proof (cases "ffill col")
  case Nil
  then show ?thesis by (simp add: volatility_of_def pct_change_def std_def)
next
  case (Cons x xs)
  have "length (ffill col) = length col"
    by (simp add: ffill_def length_ffill_from)
  with Cons assms have "length xs \<le> 1" by simp
  with Cons have "std (pct_change col) = NaN"
    using length_changes [of x xs] by (intro std_short) (simp_all add: pct_change_def)
  then show ?thesis by (simp add: volatility_of_def)
qed

lemma volatility_finite:
  assumes "3 \<le> length close" and "0 \<notin> set close"
  shows "volatility_of (map Some close) = Fin (sample_std (period_changes close) * 100)"
proof -
  from assms(1) have ne: "close \<noteq> []" by auto
  have "2 \<le> length (period_changes close)"
    using assms(1) by (simp add: length_period_changes)
  then show ?thesis
    by (simp add: volatility_of_def pct_change_finite [OF ne assms(2)] std_finite)
qed

lemma period_changes_constant:
  assumes "c \<noteq> 0" and "\<forall>x\<in>set close. x = c"
  shows "period_changes close = replicate (length close - 1) 0"
proof -
  have "\<forall>r\<in>set (period_changes close). r = 0"
  proof
    fix r assume "r \<in> set (period_changes close)"
    then obtain p q where "(p, q) \<in> set (zip close (tl close))" and r: "r = q / p - 1"
      by (auto simp: period_changes_def)
    then have "p \<in> set close" and "q \<in> set (tl close)"
      by (auto dest: set_zip_leftD set_zip_rightD)
    moreover have "set (tl close) \<subseteq> set close"
      by (cases close) auto
    ultimately have "p = c" and "q = c"
      using assms(2) by blast+
    with r assms(1) show "r = 0" by simp
  qed
  then have "period_changes close = replicate (length (period_changes close)) 0"
    by (simp add: replicate_length_same)
  then show ?thesis
    by (simp add: length_period_changes)
qed

lemma sample_std_zeros: "sample_std (replicate n 0) = 0"
  by (simp add: sample_std_def sum_list_replicate)

lemma volatility_constant:
  assumes "3 \<le> length close" and "c \<noteq> 0" and "\<forall>x\<in>set close. x = c"
  shows "volatility_of (map Some close) = Fin 0"
proof -
  have "0 \<notin> set close"
    using assms(2,3) by auto
  from volatility_finite [OF assms(1) this] show ?thesis
    by (simp add: period_changes_constant [OF assms(2,3)] sample_std_zeros)
qed

text \<open>
  C7, as the code has it. The volatility in the report of the analysis tool is
  \<open>volatility_of\<close> of the closing prices. On a series of at least three rows with no
  zero close it is the sample standard deviation, with denominator \<open>n - 1\<close>, of the
  period-over-period changes of the close, times 100. On a series of at least three
  rows with one nonzero close throughout it is 0. On a series of at most two rows there
  is at most one change, the sample standard deviation is undefined, and the volatility
  is NaN.
\<close>

theorem volatility_sample_std:
  assumes "history (upper symbol) ''3mo'' = Inr hist" and "\<not> df_empty hist" and "wf_df hist"
    and "map_of hist ''Close'' = Some (map Some close)" and "map_of hist ''Low'' = Some low"
    and "map_of hist ''High'' = Some high"
  shows "report_field (stock_analysis_run upper mean_at history symbol) ''Volatility (3-month)''
           = Some (Percent (volatility_of (map Some close))) \<and>
         (3 \<le> length close \<and> 0 \<notin> set close \<longrightarrow>
            volatility_of (map Some close) = Fin (sample_std (period_changes close) * 100)) \<and>
         (3 \<le> length close \<and> c \<noteq> 0 \<and> (\<forall>x\<in>set close. x = c) \<longrightarrow>
            volatility_of (map Some close) = Fin 0) \<and>
         (length close \<le> 2 \<longrightarrow> volatility_of (map Some close) = NaN)"
proof -
  have "report_field (stock_analysis_run upper mean_at history symbol) ''Volatility (3-month)''
      = Some (Percent (volatility_of (map Some close)))"
    by (simp add: stock_analysis_report [of history upper symbol, OF assms])
  with volatility_finite [of close] volatility_constant [of close c]
    volatility_short [of "map Some close"]
  show ?thesis by auto
qed

theorem volatility_sample_std_witness:
  "report_field (stock_analysis_run ascii_upper exact_mean four_day_history ''aapl'')
     ''Volatility (3-month)'' = Some (Percent (Fin 0)) \<and>
   volatility_of (map Some [50, 50, 50, 50])
     = Fin (sample_std (period_changes [50, 50, 50, 50]) * 100) \<and>
   report_field (stock_analysis_run ascii_upper exact_mean two_day_history ''aapl'')
     ''Volatility (3-month)'' = Some (Percent NaN)"
proof -
  let ?hist = "[(''Open'', map Some [50, 50, 50, 50]), (''High'', map Some [52, 51, 53, 51]),
      (''Low'', map Some [49, 48, 49, 47]), (''Close'', map Some [50, 50, 50, 50]),
      (''Volume'', map Some [5000, 7000, 6000, 4000])] :: dataframe"
  have a: "four_day_history (ascii_upper ''aapl'') ''3mo'' = Inr ?hist"
    by (simp add: four_day_history_def)
  have b: "\<not> df_empty ?hist" by (simp add: df_empty_def)
  have c: "wf_df ?hist" by (simp add: wf_df_def)
  have d: "map_of ?hist ''Close'' = Some (map Some [50, 50, 50, 50])" by simp
  have e: "map_of ?hist ''Low'' = Some (map Some [49, 48, 49, 47])" by simp
  have f: "map_of ?hist ''High'' = Some (map Some [52, 51, 53, 51])" by simp
  have g: "3 \<le> length [50, 50, 50, 50 :: real] \<and> 0 \<notin> set [50, 50, 50, 50 :: real]"
    by simp
  have h: "3 \<le> length [50, 50, 50, 50 :: real] \<and> (50 :: real) \<noteq> 0 \<and>
      (\<forall>x\<in>set [50, 50, 50, 50 :: real]. x = 50)"
    by simp
  let ?hist2 = "[(''Open'', map Some [100, 100]), (''High'', map Some [101, 101]),
          (''Low'', map Some [99, 99]), (''Close'', map Some [100, 100]),
          (''Volume'', map Some [5000, 7000])] :: dataframe"
  have a2: "two_day_history (ascii_upper ''aapl'') ''3mo'' = Inr ?hist2"
    by (simp add: two_day_history_def)
  have b2: "\<not> df_empty ?hist2" by (simp add: df_empty_def)
  have c2: "wf_df ?hist2" by (simp add: wf_df_def)
  have d2: "map_of ?hist2 ''Close'' = Some (map Some [100, 100])" by simp
  have e2: "map_of ?hist2 ''Low'' = Some (map Some [99, 99])" by simp
  have f2: "map_of ?hist2 ''High'' = Some (map Some [101, 101])" by simp
  have g2: "length [100, 100 :: real] \<le> 2" by simp
  note t1 = volatility_sample_std
    [where history = four_day_history and upper = ascii_upper and symbol = "''aapl''"
       and mean_at = exact_mean and c = 50, OF a b c d e f]
  from g h t1 have 1: "report_field
      (stock_analysis_run ascii_upper exact_mean four_day_history ''aapl'')
      ''Volatility (3-month)'' = Some (Percent (Fin 0)) \<and>
     volatility_of (map Some [50, 50, 50, 50])
       = Fin (sample_std (period_changes [50, 50, 50, 50]) * 100)"
    by metis
  note t2 = volatility_sample_std
    [where history = two_day_history and upper = ascii_upper and symbol = "''aapl''"
       and mean_at = exact_mean and c = 100, OF a2 b2 c2 d2 e2 f2]
  from g2 t2 have 2: "report_field
      (stock_analysis_run ascii_upper exact_mean two_day_history ''aapl'')
      ''Volatility (3-month)'' = Some (Percent NaN)"
    by metis
  from 1 2 show ?thesis by blast
qed

text \<open>
  The claim as the spec states it fails: for a listing with two trading days at one
  close of 100, a constant series with two observations, the volatility in the report
  is NaN and not 0.
\<close>

theorem volatility_two_rows_counterexample:
  "report_field (stock_analysis_run ascii_upper exact_mean two_day_history ''aapl'')
     ''Volatility (3-month)'' = Some (Percent NaN) \<and>
   volatility_of (map Some [100, 100]) = NaN \<and> volatility_of (map Some [100, 100]) \<noteq> Fin 0"
proof -
  let ?hist2 = "[(''Open'', map Some [100, 100]), (''High'', map Some [101, 101]),
          (''Low'', map Some [99, 99]), (''Close'', map Some [100, 100]),
          (''Volume'', map Some [5000, 7000])] :: dataframe"
  have a2: "two_day_history (ascii_upper ''aapl'') ''3mo'' = Inr ?hist2"
    by (simp add: two_day_history_def)
  have b2: "\<not> df_empty ?hist2" by (simp add: df_empty_def)
  have c2: "wf_df ?hist2" by (simp add: wf_df_def)
  have d2: "map_of ?hist2 ''Close'' = Some (map Some [100, 100])" by simp
  have e2: "map_of ?hist2 ''Low'' = Some (map Some [99, 99])" by simp
  have f2: "map_of ?hist2 ''High'' = Some (map Some [101, 101])" by simp
  have v: "volatility_of [Some 100, Some 100] = NaN"
    by (simp add: volatility_of_def pct_change_def ffill_def std_def f_div_def)
  show ?thesis
    by (simp add: stock_analysis_report
        [of two_day_history ascii_upper "''aapl''", OF a2 b2 c2 d2 e2 f2] v)
qed


end
